theory Spec2Isabelle
  imports Main
begin

section \<open>The result library: data model\<close>

text \<open>
  The header \<^verbatim>\<open>src/result/result.hpp\<close> defines the construction tags \<^verbatim>\<open>Ok\<close> and
  \<^verbatim>\<open>Error\<close>, the exception \<^verbatim>\<open>BadUnwrapException\<close>, the class template
  \<^verbatim>\<open>Result<OkType, ErrorType>\<close> over a \<^verbatim>\<open>std::variant\<close> and its specialisation
  \<^verbatim>\<open>Result<void, ErrorType>\<close> over a \<^verbatim>\<open>std::optional\<close>.

  Payloads are HOL values: a copy or a move of a payload that completes yields the same
  value. That a move of a payload may throw is modelled in assignment, where it decides
  what the object holds afterwards. An exception is a value on the left of a sum. The
  accessors \<^verbatim>\<open>unwrap\<close> and \<^verbatim>\<open>error\<close> return their outcome together with the object they
  were called on, as the call leaves it. \<^verbatim>\<open>map\<close> and
  \<^verbatim>\<open>map_error\<close> return their outcome together with the state of the caller; what the
  consuming overloads leave in the object they consumed is not modelled. The field
  \<^verbatim>\<open>value\<close> of the tags is written \<open>Ok_value\<close> and \<open>Error_value\<close>.
\<close>

subsection \<open>Construction tags\<close>

datatype 'a Ok = Ok (Ok_value: 'a)

datatype Ok_void = Ok_void

datatype 'a Error = Error (Error_value: 'a)

subsection \<open>What the library is told about the error type\<close>

text \<open>
  Two facts about \<^verbatim>\<open>ErrorType\<close> are fixed when the templates are instantiated, so they are
  parameters of the model and not part of any value:
  \<^item> \<open>ErrorDescription\<close>: the hook \<^verbatim>\<open>ErrorDescription<T>::description\<close>, \<open>Some d\<close> when the
    type specialises it (the concept \<^verbatim>\<open>HasErrorDescription<T>\<close> holds), \<open>None\<close> otherwise;
  \<^item> \<open>moved_from\<close>: what the move constructor of the type leaves in the object it moved
    from (the identity for a trivially copyable type, the empty string for most
    implementations of \<^verbatim>\<open>std::string\<close>).
\<close>

record 'e ErrorType =
  ErrorDescription :: "('e \<Rightarrow> string) option"
  moved_from :: "'e \<Rightarrow> 'e"

definition HasErrorDescription :: "'e ErrorType \<Rightarrow> bool" where
  "HasErrorDescription T = (ErrorDescription T \<noteq> None)"

subsection \<open>Exceptions\<close>

record 'e BadUnwrapException =
  m_error :: 'e
  m_message :: string

text \<open>The two overloads of \<^verbatim>\<open>construct_message\<close>, selected by the concept.\<close>

definition construct_message :: "'e ErrorType \<Rightarrow> 'e \<Rightarrow> string" where
  "construct_message T e =
     (case ErrorDescription T of
        Some description \<Rightarrow> ''Failed to unwrap Result: '' @ description e
      | None \<Rightarrow> ''Failed to unwrap Result'')"

text \<open>The constructor \<^verbatim>\<open>BadUnwrapException(T e) : m_error(std::move(e)) { construct_message(); }\<close>.\<close>

definition BadUnwrapException_init :: "'e ErrorType \<Rightarrow> 'e \<Rightarrow> 'e BadUnwrapException" where
  "BadUnwrapException_init T e =
     \<lparr>BadUnwrapException.m_error = e, m_message = construct_message T e\<rparr>"

text \<open>
  \<^verbatim>\<open>what()\<close> returns \<^verbatim>\<open>m_message.c_str()\<close>: a C string, which ends before the first NUL
  character of the message.
\<close>

definition what :: "'e BadUnwrapException \<Rightarrow> string" where
  "what ex = takeWhile (\<lambda>c. c \<noteq> CHR 0x00) (m_message ex)"

text \<open>
  Everything a member function of \<^verbatim>\<open>Result\<close> can raise by itself: the two exceptions it
  throws, the \<^verbatim>\<open>std::bad_optional_access\<close> of \<^verbatim>\<open>std::optional::value\<close>, and the
  dereference of the null pointer that \<^verbatim>\<open>std::get_if\<close> returns for the inactive index.
\<close>

datatype 'e failure =
    BadUnwrap "'e BadUnwrapException"
  | runtime_error string
  | bad_optional_access
  | null_dereference

subsection \<open>The standard containers the classes store\<close>

text \<open>
  \<^verbatim>\<open>std::variant<OkType, ErrorType>\<close> with \<^verbatim>\<open>OkIndex = 0\<close> and \<^verbatim>\<open>ErrorIndex = 1\<close>. A variant
  holds one of its alternatives, or, after an exception while it changed alternative, none
  (\<^verbatim>\<open>valueless_by_exception()\<close>).
\<close>

datatype ('a, 'e) variant =
    in_place_OkIndex 'a
  | in_place_ErrorIndex 'e
  | valueless_by_exception

text \<open>
  \<^verbatim>\<open>std::get_if<I>\<close>: a pointer to the alternative, null (\<open>None\<close>) when the variant does not
  hold it.
\<close>

fun get_if_OkIndex :: "('a, 'e) variant \<Rightarrow> 'a option" where
  "get_if_OkIndex (in_place_OkIndex v) = Some v"
| "get_if_OkIndex (in_place_ErrorIndex e) = None"
| "get_if_OkIndex valueless_by_exception = None"

fun get_if_ErrorIndex :: "('a, 'e) variant \<Rightarrow> 'e option" where
  "get_if_ErrorIndex (in_place_OkIndex v) = None"
| "get_if_ErrorIndex (in_place_ErrorIndex e) = Some e"
| "get_if_ErrorIndex valueless_by_exception = None"

text \<open>\<^verbatim>\<open>*ptr\<close> for a pointer obtained from \<^verbatim>\<open>std::get_if\<close>.\<close>

fun deref :: "'a option \<Rightarrow> 'e failure + 'a" where
  "deref (Some v) = Inr v"
| "deref None = Inl null_dereference"

text \<open>\<^verbatim>\<open>std::optional::has_value\<close> and the checked \<^verbatim>\<open>std::optional::value\<close>.\<close>

fun optional_has_value :: "'a option \<Rightarrow> bool" where
  "optional_has_value (Some v) = True"
| "optional_has_value None = False"

fun optional_value :: "'a option \<Rightarrow> 'e failure + 'a" where
  "optional_value (Some v) = Inr v"
| "optional_value None = Inl bad_optional_access"

subsection \<open>Moves of a payload during assignment\<close>

text \<open>
  What the payload type's move operations do in one assignment, each \<open>None\<close> when it
  completes:
  \<^item> \<open>into_temporary\<close>: the exception of the move constructor that builds the temporary
    \<^verbatim>\<open>std::variant\<close> on the right of \<^verbatim>\<open>m_value = ...\<close>;
  \<^item> \<open>move_assign\<close>: the exception of the payload's move assignment, with the value it
    leaves in the target (its exception safety guarantee decides that value);
  \<^item> \<open>into_storage\<close>: the exception of the move constructor that builds the payload in
    storage that holds no payload (any more).
\<close>

record ('t, 'p) payload_moves =
  into_temporary :: "'p option"
  move_assign :: "('p \<times> 't) option"
  into_storage :: "'p option"

subsection \<open>Callables\<close>

text \<open>
  The transform passed to \<^verbatim>\<open>map\<close> and \<^verbatim>\<open>map_error\<close> is arbitrary caller code: it may change
  the caller's state \<open>'w\<close> and it may throw an exception \<open>'x\<close> of its own. A callable
  without parameters takes \<open>()\<close>, and one that returns \<^verbatim>\<open>void\<close> returns \<open>()\<close>.

  \<open>invoke\<close> is a call expression \<^verbatim>\<open>f(x)\<close> inside the library. The state it threads is the
  caller's state with the number of such calls executed so far.
\<close>

type_synonym ('a, 'b, 'x, 'w) callable = "'a \<Rightarrow> 'w \<Rightarrow> ('x + 'b) \<times> 'w"

definition invoke ::
  "('a, 'b, 'x, 'w) callable \<Rightarrow> 'a \<Rightarrow> nat \<times> 'w \<Rightarrow> ('x + 'b) \<times> (nat \<times> 'w)" where
  "invoke f x s = (case f x (snd s) of (y, w') \<Rightarrow> (y, (Suc (fst s), w')))"

text \<open>What leaves \<^verbatim>\<open>map\<close> or \<^verbatim>\<open>map_error\<close> instead of a value.\<close>

datatype ('e, 'x) escaping = from_Result "'e failure" | from_callable 'x

text \<open>
  Sequencing inside a member function: an exception of an accessor leaves the function
  (\<open>propagate\<close>), and so does an exception of the callable (\<open>call\<close>); neither is caught.
\<close>

definition propagate ::
  "'e failure + 'a \<Rightarrow> 's \<Rightarrow> ('a \<Rightarrow> 's \<Rightarrow> (('e, 'x) escaping + 'c) \<times> 's) \<Rightarrow>
     (('e, 'x) escaping + 'c) \<times> 's" where
  "propagate outcome s k =
     (case outcome of Inl ex \<Rightarrow> (Inl (from_Result ex), s) | Inr v \<Rightarrow> k v s)"

definition call ::
  "('a, 'b, 'x, 'w) callable \<Rightarrow> 'a \<Rightarrow> nat \<times> 'w \<Rightarrow>
     ('b \<Rightarrow> nat \<times> 'w \<Rightarrow> (('e, 'x) escaping + 'c) \<times> (nat \<times> 'w)) \<Rightarrow>
     (('e, 'x) escaping + 'c) \<times> (nat \<times> 'w)" where
  "call f x s k =
     (case invoke f x s of
        (Inl ex, s') \<Rightarrow> (Inl (from_callable ex), s')
      | (Inr y, s') \<Rightarrow> k y s')"

subsection \<open>Public members\<close>

text \<open>
  The names a class declares in its \<^verbatim>\<open>public\<close> section, one constructor per declaration
  (an overload on the reference qualifier is a declaration of its own).
\<close>

datatype member =
    M_ctor_Ok | M_ctor_Error | M_assign_Ok | M_assign_Error
  | M_unwrap_const | M_unwrap_rvalue | M_error_const | M_error_rvalue
  | M_has_value | M_has_error | M_operator_bool
  | M_map_const | M_map_rvalue | M_map_error_const | M_map_error_rvalue

subsection \<open>The two classes\<close>

record ('a, 'e) Result =
  m_value :: "('a, 'e) variant"

record 'e Result_void =
  m_error :: "'e option"

text \<open>
  The constructors of the specialisation stand here because \<^verbatim>\<open>map\<close> of the class template
  returns the specialisation when the callable returns \<^verbatim>\<open>void\<close>.
\<close>

definition Result_void_from_Ok :: "Ok_void \<Rightarrow> 'e Result_void" where
  "Result_void_from_Ok v = \<lparr>Result_void.m_error = None\<rparr>"

definition Result_void_from_Error :: "'e Error \<Rightarrow> 'e Result_void" where
  "Result_void_from_Error v = \<lparr>Result_void.m_error = Some (Error_value v)\<rparr>"

section \<open>The class template Result<OkType, ErrorType>\<close>

definition Result_from_Ok :: "'a Ok \<Rightarrow> ('a, 'e) Result" where
  "Result_from_Ok v = \<lparr>m_value = in_place_OkIndex (Ok_value v)\<rparr>"

definition Result_from_Error :: "'e Error \<Rightarrow> ('a, 'e) Result" where
  "Result_from_Error v = \<lparr>m_value = in_place_ErrorIndex (Error_value v)\<rparr>"

text \<open>
  \<^verbatim>\<open>operator=\<close> builds a temporary variant from the tag's value and move-assigns it to
  \<^verbatim>\<open>m_value\<close>. If building the temporary throws, \<^verbatim>\<open>m_value\<close> is untouched. The move
  assignment of \<^verbatim>\<open>std::variant\<close> then assigns payload to payload when \<^verbatim>\<open>m_value\<close> holds the
  alternative of the temporary, where an exception leaves that alternative in place; else
  it destroys what \<^verbatim>\<open>m_value\<close> holds and move-constructs the new payload, where an exception
  leaves \<^verbatim>\<open>m_value\<close> without an alternative. The functions return the exception that leaves
  \<^verbatim>\<open>operator=\<close>, if any, and the object afterwards.
\<close>

definition assign_Ok ::
  "('a, 'p) payload_moves \<Rightarrow> ('a, 'e) Result \<Rightarrow> 'a Ok \<Rightarrow> 'p option \<times> ('a, 'e) Result" where
  "assign_Ok M r v =
     (case into_temporary M of
        Some ex \<Rightarrow> (Some ex, r)
      | None \<Rightarrow>
          (case m_value r of
             in_place_OkIndex old \<Rightarrow>
               (case move_assign M of
                  None \<Rightarrow> (None, r\<lparr>m_value := in_place_OkIndex (Ok_value v)\<rparr>)
                | Some (ex, left) \<Rightarrow> (Some ex, r\<lparr>m_value := in_place_OkIndex left\<rparr>))
           | _ \<Rightarrow>
               (case into_storage M of
                  None \<Rightarrow> (None, r\<lparr>m_value := in_place_OkIndex (Ok_value v)\<rparr>)
                | Some ex \<Rightarrow> (Some ex, r\<lparr>m_value := valueless_by_exception\<rparr>))))"

definition assign_Error ::
  "('e, 'p) payload_moves \<Rightarrow> ('a, 'e) Result \<Rightarrow> 'e Error \<Rightarrow> 'p option \<times> ('a, 'e) Result" where
  "assign_Error M r v =
     (case into_temporary M of
        Some ex \<Rightarrow> (Some ex, r)
      | None \<Rightarrow>
          (case m_value r of
             in_place_ErrorIndex old \<Rightarrow>
               (case move_assign M of
                  None \<Rightarrow> (None, r\<lparr>m_value := in_place_ErrorIndex (Error_value v)\<rparr>)
                | Some (ex, left) \<Rightarrow> (Some ex, r\<lparr>m_value := in_place_ErrorIndex left\<rparr>))
           | _ \<Rightarrow>
               (case into_storage M of
                  None \<Rightarrow> (None, r\<lparr>m_value := in_place_ErrorIndex (Error_value v)\<rparr>)
                | Some ex \<Rightarrow> (Some ex, r\<lparr>m_value := valueless_by_exception\<rparr>))))"

text \<open>
  \<^verbatim>\<open>unwrap() const&\<close> copies the error payload into the exception and cannot write to the
  object. \<^verbatim>\<open>unwrap() &&\<close> move-constructs the exception's parameter from the payload,
  which stays in the variant as a moved-from object; on the success branch it only
  returns a reference.
\<close>

definition unwrap_const ::
  "'e ErrorType \<Rightarrow> ('a, 'e) Result \<Rightarrow> ('e failure + 'a) \<times> ('a, 'e) Result" where
  "unwrap_const T r =
     (case get_if_ErrorIndex (m_value r) of
        Some error \<Rightarrow> (Inl (BadUnwrap (BadUnwrapException_init T error)), r)
      | None \<Rightarrow> (deref (get_if_OkIndex (m_value r)), r))"

definition unwrap_rvalue ::
  "'e ErrorType \<Rightarrow> ('a, 'e) Result \<Rightarrow> ('e failure + 'a) \<times> ('a, 'e) Result" where
  "unwrap_rvalue T r =
     (case get_if_ErrorIndex (m_value r) of
        Some error \<Rightarrow>
          (Inl (BadUnwrap (BadUnwrapException_init T error)),
           r\<lparr>m_value := in_place_ErrorIndex (moved_from T error)\<rparr>)
      | None \<Rightarrow> (deref (get_if_OkIndex (m_value r)), r))"

definition error_const :: "('a, 'e) Result \<Rightarrow> ('e failure + 'e) \<times> ('a, 'e) Result" where
  "error_const r =
     (case get_if_OkIndex (m_value r) of
        Some ok \<Rightarrow> (Inl (runtime_error ''Failed to access error of a successful Result''), r)
      | None \<Rightarrow> (deref (get_if_ErrorIndex (m_value r)), r))"

definition error_rvalue :: "('a, 'e) Result \<Rightarrow> ('e failure + 'e) \<times> ('a, 'e) Result" where
  "error_rvalue r =
     (case get_if_OkIndex (m_value r) of
        Some ok \<Rightarrow> (Inl (runtime_error ''Failed to access error of a successful Result''), r)
      | None \<Rightarrow> (deref (get_if_ErrorIndex (m_value r)), r))"

definition has_value :: "('a, 'e) Result \<Rightarrow> bool" where
  "has_value r = (get_if_OkIndex (m_value r) \<noteq> None)"

definition has_error :: "('a, 'e) Result \<Rightarrow> bool" where
  "has_error r = (get_if_ErrorIndex (m_value r) \<noteq> None)"

definition operator_bool :: "('a, 'e) Result \<Rightarrow> bool" where
  "operator_bool r = has_value r"

text \<open>
  \<^verbatim>\<open>map\<close>. The \<^verbatim>\<open>if constexpr\<close> on the callable's return type selects one of two bodies
  when the template is instantiated, so each overload is two functions here: the one for
  a callable that returns a value, and the one (suffix \<open>_void\<close>) for a callable that returns
  \<^verbatim>\<open>void\<close>, whose result is the specialisation \<^verbatim>\<open>Result<void, ErrorType>\<close>.

  In the \<^verbatim>\<open>void\<close> body of the rvalue overload the statement is
  \<^verbatim>\<open>f(f(std::move(*this).unwrap()));\<close>: two call expressions, the outer one applied to what
  the inner one returns. The term below is that statement; HOL types it only where the
  payload type is the callable's own return type.

  The \<^verbatim>\<open>noexcept\<close> specifications depend on the type of the callable alone: with a
  callable that may throw, the member function may throw, and the exception propagates.
\<close>

definition map_const ::
  "'e ErrorType \<Rightarrow> ('a, 'e) Result \<Rightarrow> ('a, 'b, 'x, 'w) callable \<Rightarrow> nat \<times> 'w \<Rightarrow>
     (('e, 'x) escaping + ('b, 'e) Result) \<times> (nat \<times> 'w)" where
  "map_const T r f s =
     (if has_error r then
        propagate (fst (error_const r)) s (\<lambda>e s. (Inr (Result_from_Error (Error e)), s))
      else
        propagate (fst (unwrap_const T r)) s (\<lambda>v s.
          call f v s (\<lambda>y s. (Inr (Result_from_Ok (Ok y)), s))))"

definition map_const_void ::
  "'e ErrorType \<Rightarrow> ('a, 'e) Result \<Rightarrow> ('a, unit, 'x, 'w) callable \<Rightarrow> nat \<times> 'w \<Rightarrow>
     (('e, 'x) escaping + 'e Result_void) \<times> (nat \<times> 'w)" where
  "map_const_void T r f s =
     (if has_error r then
        propagate (fst (error_const r)) s (\<lambda>e s.
          (Inr (Result_void_from_Error (Error e)), s))
      else
        propagate (fst (unwrap_const T r)) s (\<lambda>v s.
          call f v s (\<lambda>u s. (Inr (Result_void_from_Ok Ok_void), s))))"

definition map_rvalue ::
  "'e ErrorType \<Rightarrow> ('a, 'e) Result \<Rightarrow> ('a, 'b, 'x, 'w) callable \<Rightarrow> nat \<times> 'w \<Rightarrow>
     (('e, 'x) escaping + ('b, 'e) Result) \<times> (nat \<times> 'w)" where
  "map_rvalue T r f s =
     (if has_error r then
        propagate (fst (error_rvalue r)) s (\<lambda>e s. (Inr (Result_from_Error (Error e)), s))
      else
        propagate (fst (unwrap_rvalue T r)) s (\<lambda>v s.
          call f v s (\<lambda>y s. (Inr (Result_from_Ok (Ok y)), s))))"

definition map_rvalue_void ::
  "'e ErrorType \<Rightarrow> (unit, 'e) Result \<Rightarrow> (unit, unit, 'x, 'w) callable \<Rightarrow> nat \<times> 'w \<Rightarrow>
     (('e, 'x) escaping + 'e Result_void) \<times> (nat \<times> 'w)" where
  "map_rvalue_void T r f s =
     (if has_error r then
        propagate (fst (error_rvalue r)) s (\<lambda>e s.
          (Inr (Result_void_from_Error (Error e)), s))
      else
        propagate (fst (unwrap_rvalue T r)) s (\<lambda>v s.
          call f v s (\<lambda>u s.
            call f u s (\<lambda>u' s. (Inr (Result_void_from_Ok Ok_void), s)))))"

definition map_error_const ::
  "'e ErrorType \<Rightarrow> ('a, 'e) Result \<Rightarrow> ('e, 'n, 'x, 'w) callable \<Rightarrow> nat \<times> 'w \<Rightarrow>
     (('e, 'x) escaping + ('a, 'n) Result) \<times> (nat \<times> 'w)" where
  "map_error_const T r f s =
     (if has_value r then
        propagate (fst (unwrap_const T r)) s (\<lambda>v s. (Inr (Result_from_Ok (Ok v)), s))
      else
        propagate (fst (error_const r)) s (\<lambda>e s.
          call f e s (\<lambda>y s. (Inr (Result_from_Error (Error y)), s))))"

definition map_error_rvalue ::
  "'e ErrorType \<Rightarrow> ('a, 'e) Result \<Rightarrow> ('e, 'n, 'x, 'w) callable \<Rightarrow> nat \<times> 'w \<Rightarrow>
     (('e, 'x) escaping + ('a, 'n) Result) \<times> (nat \<times> 'w)" where
  "map_error_rvalue T r f s =
     (if has_value r then
        propagate (fst (unwrap_rvalue T r)) s (\<lambda>v s. (Inr (Result_from_Ok (Ok v)), s))
      else
        propagate (fst (error_rvalue r)) s (\<lambda>e s.
          call f e s (\<lambda>y s. (Inr (Result_from_Error (Error y)), s))))"

text \<open>The public section of the class template, in the order of the header.\<close>

definition public_members :: "member list" where
  "public_members =
     [M_ctor_Ok, M_ctor_Error, M_assign_Ok, M_assign_Error,
      M_unwrap_const, M_unwrap_rvalue, M_error_const, M_error_rvalue,
      M_has_value, M_has_error, M_operator_bool,
      M_map_const, M_map_rvalue, M_map_error_const, M_map_error_rvalue]"

section \<open>The specialisation Result<void, ErrorType>\<close>

text \<open>
  \<^verbatim>\<open>m_error = std::nullopt\<close> destroys the stored error, if any. \<^verbatim>\<open>m_error = std::move(v.value)\<close>
  assigns payload to payload when an error is stored and move-constructs the payload
  otherwise; an exception of either leaves \<^verbatim>\<open>m_error.has_value()\<close> as it was.
\<close>

definition void_assign_Ok :: "'e Result_void \<Rightarrow> Ok_void \<Rightarrow> 'e Result_void" where
  "void_assign_Ok r v = r\<lparr>Result_void.m_error := None\<rparr>"

definition void_assign_Error ::
  "('e, 'p) payload_moves \<Rightarrow> 'e Result_void \<Rightarrow> 'e Error \<Rightarrow> 'p option \<times> 'e Result_void" where
  "void_assign_Error M r v =
     (case Result_void.m_error r of
        Some old \<Rightarrow>
          (case move_assign M of
             None \<Rightarrow> (None, r\<lparr>Result_void.m_error := Some (Error_value v)\<rparr>)
           | Some (ex, left) \<Rightarrow> (Some ex, r\<lparr>Result_void.m_error := Some left\<rparr>))
      | None \<Rightarrow>
          (case into_storage M of
             None \<Rightarrow> (None, r\<lparr>Result_void.m_error := Some (Error_value v)\<rparr>)
           | Some ex \<Rightarrow> (Some ex, r)))"

definition void_unwrap_const ::
  "'e ErrorType \<Rightarrow> 'e Result_void \<Rightarrow> ('e failure + unit) \<times> 'e Result_void" where
  "void_unwrap_const T r =
     (if optional_has_value (Result_void.m_error r) then
        (case optional_value (Result_void.m_error r) of
           Inl ex \<Rightarrow> (Inl ex, r)
         | Inr e \<Rightarrow> (Inl (BadUnwrap (BadUnwrapException_init T e)), r))
      else (Inr (), r))"

definition void_unwrap_rvalue ::
  "'e ErrorType \<Rightarrow> 'e Result_void \<Rightarrow> ('e failure + unit) \<times> 'e Result_void" where
  "void_unwrap_rvalue T r =
     (if optional_has_value (Result_void.m_error r) then
        (case optional_value (Result_void.m_error r) of
           Inl ex \<Rightarrow> (Inl ex, r)
         | Inr e \<Rightarrow>
             (Inl (BadUnwrap (BadUnwrapException_init T e)),
              r\<lparr>Result_void.m_error := Some (moved_from T e)\<rparr>))
      else (Inr (), r))"

definition void_error_const :: "'e Result_void \<Rightarrow> ('e failure + 'e) \<times> 'e Result_void" where
  "void_error_const r =
     (if Result_void.m_error r = None then
        (Inl (runtime_error ''Failed to access error of a successful Result''), r)
      else (optional_value (Result_void.m_error r), r))"

definition void_error_rvalue :: "'e Result_void \<Rightarrow> ('e failure + 'e) \<times> 'e Result_void" where
  "void_error_rvalue r =
     (if Result_void.m_error r = None then
        (Inl (runtime_error ''Failed to access error of a successful Result''), r)
      else (optional_value (Result_void.m_error r), r))"

definition void_has_error :: "'e Result_void \<Rightarrow> bool" where
  "void_has_error r = optional_has_value (Result_void.m_error r)"

definition void_operator_bool :: "'e Result_void \<Rightarrow> bool" where
  "void_operator_bool r = (\<not> void_has_error r)"

definition void_map_const ::
  "'e Result_void \<Rightarrow> (unit, 'b, 'x, 'w) callable \<Rightarrow> nat \<times> 'w \<Rightarrow>
     (('e, 'x) escaping + ('b, 'e) Result) \<times> (nat \<times> 'w)" where
  "void_map_const r f s =
     (if optional_has_value (Result_void.m_error r) then
        propagate (optional_value (Result_void.m_error r)) s (\<lambda>e s.
          (Inr (Result_from_Error (Error e)), s))
      else call f () s (\<lambda>y s. (Inr (Result_from_Ok (Ok y)), s)))"

definition void_map_const_void ::
  "'e Result_void \<Rightarrow> (unit, unit, 'x, 'w) callable \<Rightarrow> nat \<times> 'w \<Rightarrow>
     (('e, 'x) escaping + 'e Result_void) \<times> (nat \<times> 'w)" where
  "void_map_const_void r f s =
     (if optional_has_value (Result_void.m_error r) then
        propagate (optional_value (Result_void.m_error r)) s (\<lambda>e s.
          (Inr (Result_void_from_Error (Error e)), s))
      else call f () s (\<lambda>u s. (Inr (Result_void_from_Ok Ok_void), s)))"

definition void_map_rvalue ::
  "'e Result_void \<Rightarrow> (unit, 'b, 'x, 'w) callable \<Rightarrow> nat \<times> 'w \<Rightarrow>
     (('e, 'x) escaping + ('b, 'e) Result) \<times> (nat \<times> 'w)" where
  "void_map_rvalue r f s =
     (if optional_has_value (Result_void.m_error r) then
        propagate (optional_value (Result_void.m_error r)) s (\<lambda>e s.
          (Inr (Result_from_Error (Error e)), s))
      else call f () s (\<lambda>y s. (Inr (Result_from_Ok (Ok y)), s)))"

definition void_map_rvalue_void ::
  "'e Result_void \<Rightarrow> (unit, unit, 'x, 'w) callable \<Rightarrow> nat \<times> 'w \<Rightarrow>
     (('e, 'x) escaping + 'e Result_void) \<times> (nat \<times> 'w)" where
  "void_map_rvalue_void r f s =
     (if optional_has_value (Result_void.m_error r) then
        propagate (optional_value (Result_void.m_error r)) s (\<lambda>e s.
          (Inr (Result_void_from_Error (Error e)), s))
      else call f () s (\<lambda>u s. (Inr (Result_void_from_Ok Ok_void), s)))"

definition void_map_error_const ::
  "'e Result_void \<Rightarrow> ('e, 'n, 'x, 'w) callable \<Rightarrow> nat \<times> 'w \<Rightarrow>
     (('e, 'x) escaping + 'n Result_void) \<times> (nat \<times> 'w)" where
  "void_map_error_const r f s =
     (if Result_void.m_error r = None then (Inr (Result_void_from_Ok Ok_void), s)
      else
        propagate (optional_value (Result_void.m_error r)) s (\<lambda>e s.
          call f e s (\<lambda>y s. (Inr (Result_void_from_Error (Error y)), s))))"

definition void_map_error_rvalue ::
  "'e Result_void \<Rightarrow> ('e, 'n, 'x, 'w) callable \<Rightarrow> nat \<times> 'w \<Rightarrow>
     (('e, 'x) escaping + 'n Result_void) \<times> (nat \<times> 'w)" where
  "void_map_error_rvalue r f s =
     (if Result_void.m_error r = None then (Inr (Result_void_from_Ok Ok_void), s)
      else
        propagate (optional_value (Result_void.m_error r)) s (\<lambda>e s.
          call f e s (\<lambda>y s. (Inr (Result_void_from_Error (Error y)), s))))"

text \<open>The public section of the specialisation, in the order of the header.\<close>

definition void_public_members :: "member list" where
  "void_public_members =
     [M_ctor_Ok, M_ctor_Error, M_assign_Ok, M_assign_Error,
      M_unwrap_const, M_unwrap_rvalue, M_error_const, M_error_rvalue,
      M_has_error, M_operator_bool,
      M_map_const, M_map_rvalue, M_map_error_const, M_map_error_rvalue]"

section \<open>Notions of the specification\<close>

text \<open>
  The expression \<^verbatim>\<open>r.map(f).map(g)\<close>: the second call runs on the temporary that the first
  one returns, in the state the first one leaves, and does not run when the first throws.
\<close>

definition chained ::
  "(('e, 'x) escaping + 'r) \<times> 's \<Rightarrow> ('r \<Rightarrow> 's \<Rightarrow> (('e, 'x) escaping + 'q) \<times> 's) \<Rightarrow>
     (('e, 'x) escaping + 'q) \<times> 's" where
  "chained first second =
     (case first of (Inl ex, s1) \<Rightarrow> (Inl ex, s1) | (Inr r1, s1) \<Rightarrow> second r1 s1)"

text \<open>The callable \<^verbatim>\<open>x => g(f(x))\<close> of the composition law.\<close>

definition composed ::
  "('a, 'b, 'x, 'w) callable \<Rightarrow> ('b, 'c, 'x, 'w) callable \<Rightarrow> ('a, 'c, 'x, 'w) callable" where
  "composed f g = (\<lambda>x w. case f x w of (Inl ex, w1) \<Rightarrow> (Inl ex, w1) | (Inr y, w1) \<Rightarrow> g y w1)"

text \<open>
  The object of the class template, with the empty success type \<open>unit\<close>, that an object of
  the specialisation stands for: no error stored is the success branch.
\<close>

definition as_generic :: "'e Result_void \<Rightarrow> (unit, 'e) Result" where
  "as_generic r =
     (case Result_void.m_error r of
        None \<Rightarrow> Result_from_Ok (Ok ())
      | Some e \<Rightarrow> Result_from_Error (Error e))"

section \<open>Basic facts\<close>

text \<open>
  An object of the class template is in one of the two constructed forms or holds a
  variant without an alternative; an object of the specialisation is in one of its two
  constructed forms.
\<close>

lemma Result_cases:
  fixes r :: "('a, 'e) Result"
  obtains (success) v where "r = Result_from_Ok (Ok v)"
        | (error) e where "r = Result_from_Error (Error e)"
        | (valueless) "m_value r = valueless_by_exception"
proof (cases r)
  case (fields x)
  then show thesis
    by (cases x) (auto simp: Result_from_Ok_def Result_from_Error_def intro: that)
qed

lemma Result_void_cases:
  fixes r :: "'e Result_void"
  obtains (success) "r = Result_void_from_Ok Ok_void"
        | (error) e where "r = Result_void_from_Error (Error e)"
proof (cases r)
  case (fields x)
  then show thesis
    by (cases x) (auto simp: Result_void_from_Ok_def Result_void_from_Error_def intro: that)
qed

lemma m_value_simps [simp]:
  "m_value (Result_from_Ok v) = in_place_OkIndex (Ok_value v)"
  "m_value (Result_from_Error e) = in_place_ErrorIndex (Error_value e)"
  by (simp_all add: Result_from_Ok_def Result_from_Error_def)

lemma m_error_simps [simp]:
  "Result_void.m_error (Result_void_from_Ok u) = None"
  "Result_void.m_error (Result_void_from_Error e) = Some (Error_value e)"
  by (simp_all add: Result_void_from_Ok_def Result_void_from_Error_def)

lemma has_simps [simp]:
  "has_value (Result_from_Ok v)" "\<not> has_error (Result_from_Ok v)"
  "has_error (Result_from_Error e)" "\<not> has_value (Result_from_Error e)"
  by (simp_all add: has_value_def has_error_def)

lemma valueless_simps:
  assumes "m_value r = valueless_by_exception"
  shows "\<not> has_value r" and "\<not> has_error r"
    and "unwrap_const T r = (Inl null_dereference, r)"
    and "unwrap_rvalue T r = (Inl null_dereference, r)"
    and "error_const r = (Inl null_dereference, r)"
    and "error_rvalue r = (Inl null_dereference, r)"
  using assms
  by (simp_all add: has_value_def has_error_def unwrap_const_def unwrap_rvalue_def
      error_const_def error_rvalue_def)

lemma m_value_valueless [simp]:
  "m_value (Result_from_Ok v) \<noteq> valueless_by_exception"
  "m_value (Result_from_Error e) \<noteq> valueless_by_exception"
  by simp_all

text \<open>Assignment, case by case.\<close>

lemma assign_Ok_simps:
  "assign_Ok M (Result_from_Ok u) v =
     (case into_temporary M of
        Some ex \<Rightarrow> (Some ex, Result_from_Ok u)
      | None \<Rightarrow>
          (case move_assign M of
             None \<Rightarrow> (None, Result_from_Ok v)
           | Some (ex, left) \<Rightarrow> (Some ex, Result_from_Ok (Ok left))))"
  "assign_Ok M (Result_from_Error d) v =
     (case into_temporary M of
        Some ex \<Rightarrow> (Some ex, Result_from_Error d)
      | None \<Rightarrow>
          (case into_storage M of
             None \<Rightarrow> (None, Result_from_Ok v)
           | Some ex \<Rightarrow> (Some ex, \<lparr>m_value = valueless_by_exception\<rparr>)))"
  "assign_Ok M \<lparr>m_value = valueless_by_exception\<rparr> v =
     (case into_temporary M of
        Some ex \<Rightarrow> (Some ex, \<lparr>m_value = valueless_by_exception\<rparr>)
      | None \<Rightarrow>
          (case into_storage M of
             None \<Rightarrow> (None, Result_from_Ok v)
           | Some ex \<Rightarrow> (Some ex, \<lparr>m_value = valueless_by_exception\<rparr>)))"
  by (simp_all add: assign_Ok_def Result_from_Ok_def Result_from_Error_def
      split: option.splits prod.splits)

lemma assign_Error_simps:
  "assign_Error N (Result_from_Error d) e =
     (case into_temporary N of
        Some ex \<Rightarrow> (Some ex, Result_from_Error d)
      | None \<Rightarrow>
          (case move_assign N of
             None \<Rightarrow> (None, Result_from_Error e)
           | Some (ex, left) \<Rightarrow> (Some ex, Result_from_Error (Error left))))"
  "assign_Error N (Result_from_Ok u) e =
     (case into_temporary N of
        Some ex \<Rightarrow> (Some ex, Result_from_Ok u)
      | None \<Rightarrow>
          (case into_storage N of
             None \<Rightarrow> (None, Result_from_Error e)
           | Some ex \<Rightarrow> (Some ex, \<lparr>m_value = valueless_by_exception\<rparr>)))"
  "assign_Error N \<lparr>m_value = valueless_by_exception\<rparr> e =
     (case into_temporary N of
        Some ex \<Rightarrow> (Some ex, \<lparr>m_value = valueless_by_exception\<rparr>)
      | None \<Rightarrow>
          (case into_storage N of
             None \<Rightarrow> (None, Result_from_Error e)
           | Some ex \<Rightarrow> (Some ex, \<lparr>m_value = valueless_by_exception\<rparr>)))"
  by (simp_all add: assign_Error_def Result_from_Ok_def Result_from_Error_def
      split: option.splits prod.splits)

lemma no_alternative_simps [simp]:
  "\<not> has_value \<lparr>m_value = valueless_by_exception\<rparr>"
  "\<not> has_error \<lparr>m_value = valueless_by_exception\<rparr>"
  by (simp_all add: has_value_def has_error_def)

lemma valueless_object:
  fixes r :: "('a, 'e) Result"
  assumes "m_value r = valueless_by_exception"
  shows "r = \<lparr>m_value = valueless_by_exception\<rparr>"
  using assms by (cases r) simp

lemma unwrap_simps [simp]:
  "unwrap_const T (Result_from_Ok v) = (Inr (Ok_value v), Result_from_Ok v)"
  "unwrap_rvalue T (Result_from_Ok v) = (Inr (Ok_value v), Result_from_Ok v)"
  "unwrap_const T (Result_from_Error e) =
     (Inl (BadUnwrap (BadUnwrapException_init T (Error_value e))), Result_from_Error e)"
  "unwrap_rvalue T (Result_from_Error e) =
     (Inl (BadUnwrap (BadUnwrapException_init T (Error_value e))),
      Result_from_Error (Error (moved_from T (Error_value e))))"
  by (simp_all add: unwrap_const_def unwrap_rvalue_def Result_from_Error_def Result_from_Ok_def)

lemma error_simps [simp]:
  "error_const (Result_from_Ok v) =
     (Inl (runtime_error ''Failed to access error of a successful Result''), Result_from_Ok v)"
  "error_rvalue (Result_from_Ok v) =
     (Inl (runtime_error ''Failed to access error of a successful Result''), Result_from_Ok v)"
  "error_const (Result_from_Error e) = (Inr (Error_value e), Result_from_Error e)"
  "error_rvalue (Result_from_Error e) = (Inr (Error_value e), Result_from_Error e)"
  by (simp_all add: error_const_def error_rvalue_def)

lemma map_on_Ok:
  "map_const T (Result_from_Ok v) f s =
     call f (Ok_value v) s (\<lambda>y s. (Inr (Result_from_Ok (Ok y)), s))"
  "map_rvalue T (Result_from_Ok v) f s =
     call f (Ok_value v) s (\<lambda>y s. (Inr (Result_from_Ok (Ok y)), s))"
  "map_const_void T (Result_from_Ok v) g s =
     call g (Ok_value v) s (\<lambda>y s. (Inr (Result_void_from_Ok Ok_void), s))"
  "map_rvalue_void T (Result_from_Ok u) h s =
     call h (Ok_value u) s (\<lambda>y s. call h y s (\<lambda>y s. (Inr (Result_void_from_Ok Ok_void), s)))"
  by (simp_all add: map_const_def map_rvalue_def map_const_void_def map_rvalue_void_def
      propagate_def)

lemma map_on_Error:
  "map_const T (Result_from_Error e) f s = (Inr (Result_from_Error (Error (Error_value e))), s)"
  "map_rvalue T (Result_from_Error e) f s = (Inr (Result_from_Error (Error (Error_value e))), s)"
  "map_const_void T (Result_from_Error e) g s =
     (Inr (Result_void_from_Error (Error (Error_value e))), s)"
  "map_rvalue_void T (Result_from_Error e) h s =
     (Inr (Result_void_from_Error (Error (Error_value e))), s)"
  by (simp_all add: map_const_def map_rvalue_def map_const_void_def map_rvalue_void_def
      propagate_def)

lemma map_error_on_Ok:
  "map_error_const T (Result_from_Ok v) f s = (Inr (Result_from_Ok (Ok (Ok_value v))), s)"
  "map_error_rvalue T (Result_from_Ok v) f s = (Inr (Result_from_Ok (Ok (Ok_value v))), s)"
  by (simp_all add: map_error_const_def map_error_rvalue_def propagate_def)

lemma map_error_on_Error:
  "map_error_const T (Result_from_Error e) f s =
     call f (Error_value e) s (\<lambda>y s. (Inr (Result_from_Error (Error y)), s))"
  "map_error_rvalue T (Result_from_Error e) f s =
     call f (Error_value e) s (\<lambda>y s. (Inr (Result_from_Error (Error y)), s))"
  by (simp_all add: map_error_const_def map_error_rvalue_def propagate_def)

lemma call_not_from_Result:
  assumes "\<And>y s'. fst (k y s') \<noteq> Inl (from_Result ex)"
  shows "fst (call f x s k) \<noteq> Inl (from_Result ex)"
  using assms by (simp add: call_def split: prod.splits sum.splits)

lemma call_count:
  assumes "\<And>y s'. fst (snd (k y s')) = fst s'"
  shows "fst (snd (call f x s k)) = Suc (fst s)"
  using assms by (auto simp: call_def invoke_def split: prod.splits sum.splits)

lemma void_accessor_simps [simp]:
  "void_has_error (Result_void_from_Error e)" "\<not> void_has_error (Result_void_from_Ok u)"
  "void_error_const (Result_void_from_Error e) = (Inr (Error_value e), Result_void_from_Error e)"
  "void_error_rvalue (Result_void_from_Error e) = (Inr (Error_value e), Result_void_from_Error e)"
  "void_error_const (Result_void_from_Ok u) =
     (Inl (runtime_error ''Failed to access error of a successful Result''), Result_void_from_Ok u)"
  "void_error_rvalue (Result_void_from_Ok u) =
     (Inl (runtime_error ''Failed to access error of a successful Result''), Result_void_from_Ok u)"
  "void_unwrap_const T (Result_void_from_Ok u) = (Inr (), Result_void_from_Ok u)"
  "void_unwrap_rvalue T (Result_void_from_Ok u) = (Inr (), Result_void_from_Ok u)"
  "void_unwrap_const T (Result_void_from_Error e) =
     (Inl (BadUnwrap (BadUnwrapException_init T (Error_value e))), Result_void_from_Error e)"
  "void_unwrap_rvalue T (Result_void_from_Error e) =
     (Inl (BadUnwrap (BadUnwrapException_init T (Error_value e))),
      Result_void_from_Error (Error (moved_from T (Error_value e))))"
  by (simp_all add: void_has_error_def void_error_const_def void_error_rvalue_def
      void_unwrap_const_def void_unwrap_rvalue_def Result_void_from_Error_def
      Result_void_from_Ok_def)

lemma void_map_on_Ok:
  "void_map_const (Result_void_from_Ok u) f s =
     call f () s (\<lambda>y s. (Inr (Result_from_Ok (Ok y)), s))"
  "void_map_rvalue (Result_void_from_Ok u) f s =
     call f () s (\<lambda>y s. (Inr (Result_from_Ok (Ok y)), s))"
  "void_map_const_void (Result_void_from_Ok u) g s =
     call g () s (\<lambda>y s. (Inr (Result_void_from_Ok Ok_void), s))"
  "void_map_rvalue_void (Result_void_from_Ok u) g s =
     call g () s (\<lambda>y s. (Inr (Result_void_from_Ok Ok_void), s))"
  by (simp_all add: void_map_const_def void_map_rvalue_def void_map_const_void_def
      void_map_rvalue_void_def)

lemma void_map_on_Error:
  "void_map_const (Result_void_from_Error e) f s =
     (Inr (Result_from_Error (Error (Error_value e))), s)"
  "void_map_rvalue (Result_void_from_Error e) f s =
     (Inr (Result_from_Error (Error (Error_value e))), s)"
  "void_map_const_void (Result_void_from_Error e) g s =
     (Inr (Result_void_from_Error (Error (Error_value e))), s)"
  "void_map_rvalue_void (Result_void_from_Error e) g s =
     (Inr (Result_void_from_Error (Error (Error_value e))), s)"
  by (simp_all add: void_map_const_def void_map_rvalue_def void_map_const_void_def
      void_map_rvalue_void_def propagate_def)

lemma void_map_error_simps:
  "void_map_error_const (Result_void_from_Ok u) k s = (Inr (Result_void_from_Ok Ok_void), s)"
  "void_map_error_rvalue (Result_void_from_Ok u) k s = (Inr (Result_void_from_Ok Ok_void), s)"
  "void_map_error_const (Result_void_from_Error e) k s =
     call k (Error_value e) s (\<lambda>y s. (Inr (Result_void_from_Error (Error y)), s))"
  "void_map_error_rvalue (Result_void_from_Error e) k s =
     call k (Error_value e) s (\<lambda>y s. (Inr (Result_void_from_Error (Error y)), s))"
  by (simp_all add: void_map_error_const_def void_map_error_rvalue_def propagate_def)

lemma as_generic_simps [simp]:
  "as_generic (Result_void_from_Ok u) = Result_from_Ok (Ok ())"
  "as_generic (Result_void_from_Error e) = Result_from_Error e"
  by (simp_all add: as_generic_def)

lemma void_assign_simps:
  "void_assign_Ok q u = Result_void_from_Ok u"
  "void_assign_Error M (Result_void_from_Error d) e =
     (case move_assign M of
        None \<Rightarrow> (None, Result_void_from_Error e)
      | Some (ex, left) \<Rightarrow> (Some ex, Result_void_from_Error (Error left)))"
  "void_assign_Error M (Result_void_from_Ok u) e =
     (case into_storage M of
        None \<Rightarrow> (None, Result_void_from_Error e)
      | Some ex \<Rightarrow> (Some ex, Result_void_from_Ok u))"
  by (simp_all add: void_assign_Ok_def void_assign_Error_def Result_void_from_Ok_def
      Result_void_from_Error_def split: option.splits)

lemma map_sum_call:
  "map_prod (map_sum id h) id (call f x s (\<lambda>y s. (Inr (c y), s))) =
     call f x s (\<lambda>y s. (Inr (h (c y)), s))"
  by (simp add: call_def split: prod.splits sum.splits)

lemma chained_call:
  "chained (call f x s (\<lambda>y s. (Inr (c y), s))) second = call f x s (\<lambda>y s. second (c y) s)"
  by (simp add: chained_def call_def split: prod.splits sum.splits)

lemma call_composed:
  "map_prod id snd (call (composed f g) x s (\<lambda>z s. (Inr (c z), s))) =
     map_prod id snd (call f x s (\<lambda>y s. call g y s (\<lambda>z s. (Inr (c z), s))))"
  by (simp add: call_def invoke_def composed_def split: prod.splits sum.splits)

lemma same_outcome_and_world:
  assumes "map_prod id snd p = map_prod id snd q"
  shows "fst p = fst q" and "snd (snd p) = snd (snd q)"
  using assms by (cases p; cases q; simp)+

lemma has_valueE:
  assumes "has_value r"
  obtains v where "r = Result_from_Ok (Ok v)"
  using assms by (cases r rule: Result_cases) (simp_all add: valueless_simps)

lemma has_errorE:
  assumes "has_error r"
  obtains e where "r = Result_from_Error (Error e)"
  using assms by (cases r rule: Result_cases) (simp_all add: valueless_simps)

lemma map_invokes_once:
  fixes r :: "('a, 'e) Result"
  assumes "has_value r"
  shows "fst (snd (map_const T r f s)) = Suc (fst s)"
    and "fst (snd (map_rvalue T r f s)) = Suc (fst s)"
    and "fst (snd (map_const_void T r g s)) = Suc (fst s)"
proof -
  from assms obtain v where "r = Result_from_Ok (Ok v)"
    by (rule has_valueE)
  then show "fst (snd (map_const T r f s)) = Suc (fst s)"
    and "fst (snd (map_rvalue T r f s)) = Suc (fst s)"
    and "fst (snd (map_const_void T r g s)) = Suc (fst s)"
    by (simp_all add: map_on_Ok call_count)
qed

lemma void_map_invokes_once:
  fixes q :: "'e Result_void"
  assumes "\<not> void_has_error q"
  shows "fst (snd (void_map_const q f s)) = Suc (fst s)"
    and "fst (snd (void_map_rvalue q f s)) = Suc (fst s)"
    and "fst (snd (void_map_const_void q g s)) = Suc (fst s)"
    and "fst (snd (void_map_rvalue_void q g s)) = Suc (fst s)"
proof -
  from assms have "q = Result_void_from_Ok Ok_void"
    by (cases q rule: Result_void_cases) simp_all
  then show "fst (snd (void_map_const q f s)) = Suc (fst s)"
    and "fst (snd (void_map_rvalue q f s)) = Suc (fst s)"
    and "fst (snd (void_map_const_void q g s)) = Suc (fst s)"
    and "fst (snd (void_map_rvalue_void q g s)) = Suc (fst s)"
    by (simp_all add: void_map_on_Ok call_count)
qed

lemma map_error_invokes_once:
  fixes r :: "('a, 'e) Result"
  assumes "has_error r"
  shows "fst (snd (map_error_const T r f s)) = Suc (fst s)"
    and "fst (snd (map_error_rvalue T r f s)) = Suc (fst s)"
proof -
  from assms obtain e where "r = Result_from_Error (Error e)"
    by (rule has_errorE)
  then show "fst (snd (map_error_const T r f s)) = Suc (fst s)"
    and "fst (snd (map_error_rvalue T r f s)) = Suc (fst s)"
    by (simp_all add: map_error_on_Error call_count)
qed

lemma map_rvalue_void_invokes_again:
  fixes r :: "(unit, 'e) Result"
  assumes "has_value r" and "h () (snd s) = (Inr (), w)"
  shows "fst (snd (map_rvalue_void T r h s)) = Suc (Suc (fst s))"
proof -
  from assms(1) obtain v where "r = Result_from_Ok (Ok v)"
    by (rule has_valueE)
  with assms(2) show ?thesis
    by (simp add: map_on_Ok call_def invoke_def split: prod.splits sum.splits)
qed

section \<open>Properties\<close>

text \<open>
  C1 (the transform is invoked once). The consuming \<open>map\<close> of the class template, given
  a callable that returns \<^verbatim>\<open>void\<close> and a result in the success branch, executes two call
  expressions: started with no call made and a callable that counts its runs, it ends
  with two calls made and two runs counted. The read-only overload and the consuming
  overload of the specialisation, at the same input, end with one. (The lemmas
  \<open>map_invokes_once\<close>, \<open>void_map_invokes_once\<close> and \<open>map_error_invokes_once\<close> give the
  one call of every other overload.)
\<close>

theorem consuming_map_void_invokes_twice:
  "has_value (Result_from_Ok (Ok ()) :: (unit, string) Result)
   \<and> map_rvalue_void \<lparr>ErrorDescription = None, moved_from = id\<rparr>
       (Result_from_Ok (Ok ()) :: (unit, string) Result)
       (\<lambda>u w. (Inr () :: unit + unit, Suc w)) (0, 0) =
     (Inr (Result_void_from_Ok Ok_void), (2, 2))
   \<and> map_const_void \<lparr>ErrorDescription = None, moved_from = id\<rparr>
       (Result_from_Ok (Ok ()) :: (unit, string) Result)
       (\<lambda>u w. (Inr () :: unit + unit, Suc w)) (0, 0) =
     (Inr (Result_void_from_Ok Ok_void), (1, 1))
   \<and> void_map_rvalue_void (Result_void_from_Ok Ok_void :: string Result_void)
       (\<lambda>u w. (Inr () :: unit + unit, Suc w)) (0, 0) =
     (Inr (Result_void_from_Ok Ok_void), (1, 1))"
  by (simp add: map_on_Ok void_map_on_Ok call_def invoke_def)

text \<open>
  C2 (branch exclusivity). A result constructed from \<open>Ok\<close> or \<open>Error\<close> has exactly the
  constructed branch active. \<open>has_value\<close> and \<open>has_error\<close> never both hold, and they
  differ exactly when the variant holds an alternative; the boolean conversion is
  \<open>has_value\<close>. Every accessor, the consuming ones included, leaves the object in the
  branch it was in. An assignment that completes leaves exactly the assigned branch
  active, and so does every assignment to an object already in that branch. An object in
  one branch is left without an alternative exactly by an assignment of the other branch
  whose temporary was built and whose move into the storage threw.
\<close>

theorem branch_exclusivity:
  fixes r :: "('a, 'e) Result"
    and M :: "('a, 'p) payload_moves" and N :: "('e, 'p) payload_moves"
  shows
  "has_value (Result_from_Ok v :: ('a, 'e) Result)
   \<and> \<not> has_error (Result_from_Ok v :: ('a, 'e) Result)
   \<and> has_error (Result_from_Error e :: ('a, 'e) Result)
   \<and> \<not> has_value (Result_from_Error e :: ('a, 'e) Result)
   \<and> operator_bool r = has_value r
   \<and> \<not> (has_value r \<and> has_error r)
   \<and> ((has_value r \<noteq> has_error r) \<longleftrightarrow> m_value r \<noteq> valueless_by_exception)
   \<and> has_value (snd (unwrap_const T r)) = has_value r
   \<and> has_error (snd (unwrap_const T r)) = has_error r
   \<and> has_value (snd (unwrap_rvalue T r)) = has_value r
   \<and> has_error (snd (unwrap_rvalue T r)) = has_error r
   \<and> has_value (snd (error_const r)) = has_value r
   \<and> has_error (snd (error_const r)) = has_error r
   \<and> has_value (snd (error_rvalue r)) = has_value r
   \<and> has_error (snd (error_rvalue r)) = has_error r
   \<and> (fst (assign_Ok M r v) = None \<longrightarrow>
        has_value (snd (assign_Ok M r v)) \<and> \<not> has_error (snd (assign_Ok M r v)))
   \<and> (fst (assign_Error N r e) = None \<longrightarrow>
        has_error (snd (assign_Error N r e)) \<and> \<not> has_value (snd (assign_Error N r e)))
   \<and> (has_value r \<longrightarrow>
        has_value (snd (assign_Ok M r v)) \<and> \<not> has_error (snd (assign_Ok M r v)))
   \<and> (has_error r \<longrightarrow>
        has_error (snd (assign_Error N r e)) \<and> \<not> has_value (snd (assign_Error N r e)))
   \<and> (m_value r \<noteq> valueless_by_exception \<longrightarrow>
        (m_value (snd (assign_Ok M r v)) = valueless_by_exception \<longleftrightarrow>
           has_error r \<and> into_temporary M = None \<and> into_storage M \<noteq> None)
      \<and> (m_value (snd (assign_Error N r e)) = valueless_by_exception \<longleftrightarrow>
           has_value r \<and> into_temporary N = None \<and> into_storage N \<noteq> None))"
proof -
  have branches: "operator_bool r = has_value r
      \<and> \<not> (has_value r \<and> has_error r)
      \<and> ((has_value r \<noteq> has_error r) \<longleftrightarrow> m_value r \<noteq> valueless_by_exception)"
    by (cases r rule: Result_cases) (simp_all add: operator_bool_def valueless_simps)
  have accessors: "has_value (snd (unwrap_const T r)) = has_value r
      \<and> has_error (snd (unwrap_const T r)) = has_error r
      \<and> has_value (snd (unwrap_rvalue T r)) = has_value r
      \<and> has_error (snd (unwrap_rvalue T r)) = has_error r
      \<and> has_value (snd (error_const r)) = has_value r
      \<and> has_error (snd (error_const r)) = has_error r
      \<and> has_value (snd (error_rvalue r)) = has_value r
      \<and> has_error (snd (error_rvalue r)) = has_error r"
    by (cases r rule: Result_cases) (simp_all add: valueless_simps)
  have ok: "(fst (assign_Ok M r v) = None \<longrightarrow>
        has_value (snd (assign_Ok M r v)) \<and> \<not> has_error (snd (assign_Ok M r v)))
      \<and> (has_value r \<longrightarrow>
        has_value (snd (assign_Ok M r v)) \<and> \<not> has_error (snd (assign_Ok M r v)))
      \<and> (m_value r \<noteq> valueless_by_exception \<longrightarrow>
        (m_value (snd (assign_Ok M r v)) = valueless_by_exception \<longleftrightarrow>
           has_error r \<and> into_temporary M = None \<and> into_storage M \<noteq> None))"
  proof (cases r rule: Result_cases)
    case (success u)
    then show ?thesis
      by (simp add: assign_Ok_simps split: option.splits prod.splits)
  next
    case (error d)
    then show ?thesis
      by (simp add: assign_Ok_simps split: option.splits prod.splits)
  next
    case valueless
    then have "r = \<lparr>m_value = valueless_by_exception\<rparr>"
      by (rule valueless_object)
    then show ?thesis
      by (simp add: assign_Ok_simps split: option.splits prod.splits)
  qed
  have err: "(fst (assign_Error N r e) = None \<longrightarrow>
        has_error (snd (assign_Error N r e)) \<and> \<not> has_value (snd (assign_Error N r e)))
      \<and> (has_error r \<longrightarrow>
        has_error (snd (assign_Error N r e)) \<and> \<not> has_value (snd (assign_Error N r e)))
      \<and> (m_value r \<noteq> valueless_by_exception \<longrightarrow>
        (m_value (snd (assign_Error N r e)) = valueless_by_exception \<longleftrightarrow>
           has_value r \<and> into_temporary N = None \<and> into_storage N \<noteq> None))"
  proof (cases r rule: Result_cases)
    case (success u)
    then show ?thesis
      by (simp add: assign_Error_simps split: option.splits prod.splits)
  next
    case (error d)
    then show ?thesis
      by (simp add: assign_Error_simps split: option.splits prod.splits)
  next
    case valueless
    then have "r = \<lparr>m_value = valueless_by_exception\<rparr>"
      by (rule valueless_object)
    then show ?thesis
      by (simp add: assign_Error_simps split: option.splits prod.splits)
  qed
  from branches accessors ok err show ?thesis
    by simp
qed

theorem branch_exclusivity_witness:
  "has_value (Result_from_Ok (Ok 42) :: (int, string) Result)
   \<and> has_error (Result_from_Error (Error ''e'') :: (int, string) Result)
   \<and> m_value (Result_from_Ok (Ok 42) :: (int, string) Result) \<noteq> valueless_by_exception
   \<and> fst (assign_Error
        \<lparr>into_temporary = None :: unit option, move_assign = None, into_storage = None\<rparr>
        (Result_from_Ok (Ok 42) :: (int, string) Result) (Error ''e'')) = None
   \<and> fst (assign_Ok
        \<lparr>into_temporary = None :: unit option, move_assign = None, into_storage = None\<rparr>
        (Result_from_Error (Error ''e'') :: (int, string) Result) (Ok 7)) = None
   \<and> has_error (snd (assign_Error
        \<lparr>into_temporary = None :: unit option, move_assign = None, into_storage = None\<rparr>
        (Result_from_Ok (Ok 42) :: (int, string) Result) (Error ''e'')))
   \<and> has_value (snd (assign_Ok
        \<lparr>into_temporary = None :: unit option, move_assign = None, into_storage = None\<rparr>
        (Result_from_Error (Error ''e'') :: (int, string) Result) (Ok 7)))
   \<and> has_value (snd (assign_Ok
        \<lparr>into_temporary = None :: unit option, move_assign = Some ((), 0), into_storage = None\<rparr>
        (Result_from_Ok (Ok 42) :: (int, string) Result) (Ok 7)))"
  using branch_exclusivity
    [where r = "Result_from_Ok (Ok 42) :: (int, string) Result" and v = "Ok 7" and e = "Error ''e''"
       and M = "\<lparr>into_temporary = None :: unit option, move_assign = Some ((), 0), into_storage = None\<rparr>"
       and N = "\<lparr>into_temporary = None :: unit option, move_assign = None, into_storage = None\<rparr>"]
    branch_exclusivity
    [where r = "Result_from_Error (Error ''e'') :: (int, string) Result" and v = "Ok 7"
       and e = "Error ''e''"
       and M = "\<lparr>into_temporary = None :: unit option, move_assign = None, into_storage = None\<rparr>"
       and N = "\<lparr>into_temporary = None :: unit option, move_assign = None, into_storage = None\<rparr>"]
  by (simp add: assign_Ok_simps assign_Error_simps)

text \<open>
  An assignment after which neither branch is active: \<open>Error\<close> assigned to a successful
  result, where the move of the error payload into the storage throws.
\<close>

theorem assignment_leaves_no_branch:
  "fst (assign_Error
        \<lparr>into_temporary = None, move_assign = None, into_storage = Some ()\<rparr>
        (Result_from_Ok (Ok 42) :: (int, string) Result) (Error ''e'')) = Some ()
   \<and> has_value (snd (assign_Error
        \<lparr>into_temporary = None, move_assign = None, into_storage = Some ()\<rparr>
        (Result_from_Ok (Ok 42) :: (int, string) Result) (Error ''e''))) =
     has_error (snd (assign_Error
        \<lparr>into_temporary = None, move_assign = None, into_storage = Some ()\<rparr>
        (Result_from_Ok (Ok 42) :: (int, string) Result) (Error ''e'')))
   \<and> \<not> has_value (snd (assign_Error
        \<lparr>into_temporary = None, move_assign = None, into_storage = Some ()\<rparr>
        (Result_from_Ok (Ok 42) :: (int, string) Result) (Error ''e'')))
   \<and> \<not> has_error (snd (assign_Error
        \<lparr>into_temporary = None, move_assign = None, into_storage = Some ()\<rparr>
        (Result_from_Ok (Ok 42) :: (int, string) Result) (Error ''e'')))"
  by (simp add: assign_Error_simps)

text \<open>
  C3 (round trip). A result constructed from \<open>Ok v\<close> is in the success branch and both
  overloads of \<open>unwrap\<close> return \<open>v\<close>; a result constructed from \<open>Error e\<close> is in the error
  branch and both overloads of \<open>error\<close> return \<open>e\<close>.
\<close>

theorem round_trip:
  "has_value (Result_from_Ok (Ok v) :: ('a, 'e) Result)
   \<and> fst (unwrap_const T (Result_from_Ok (Ok v) :: ('a, 'e) Result)) = Inr v
   \<and> fst (unwrap_rvalue T (Result_from_Ok (Ok v) :: ('a, 'e) Result)) = Inr v
   \<and> has_error (Result_from_Error (Error e) :: ('a, 'e) Result)
   \<and> fst (error_const (Result_from_Error (Error e) :: ('a, 'e) Result)) = Inr e
   \<and> fst (error_rvalue (Result_from_Error (Error e) :: ('a, 'e) Result)) = Inr e"
  by simp

text \<open>
  C4 (map on the error branch). When \<open>r\<close> holds an error, \<open>map\<close> returns normally a
  result in the error branch whose payload is the payload of \<open>r\<close>, and the state is the
  one it was called in: the call counter and the caller's state are untouched, so the
  transform was not invoked. What leaves \<open>map\<close>, on any object, is never the
  \<open>BadUnwrapException\<close> of \<open>unwrap\<close> or the \<open>runtime_error\<close> of \<open>error\<close>. This is stated for
  the three instantiations that exist: both overloads for a callable that returns a
  value, and the read-only overload for a callable that returns \<^verbatim>\<open>void\<close>. The consuming
  overload for a callable that returns \<^verbatim>\<open>void\<close> is the statement of C1, which no such
  callable instantiates.
\<close>

theorem map_identity_on_error:
  fixes r :: "('a, 'e) Result"
    and f :: "('a, 'b, 'x, 'w) callable" and g :: "('a, unit, 'x, 'w) callable"
  shows
  "(has_error r \<longrightarrow>
      (\<exists>e r'. fst (error_const r) = Inr e \<and> map_const T r f s = (Inr r', s)
          \<and> has_error r' \<and> fst (error_const r') = Inr e)
    \<and> (\<exists>e r'. fst (error_const r) = Inr e \<and> map_rvalue T r f s = (Inr r', s)
          \<and> has_error r' \<and> fst (error_const r') = Inr e)
    \<and> (\<exists>e r'. fst (error_const r) = Inr e \<and> map_const_void T r g s = (Inr r', s)
          \<and> void_has_error r' \<and> fst (void_error_const r') = Inr e))
   \<and> fst (map_const T r f s) \<noteq> Inl (from_Result (BadUnwrap bx))
   \<and> fst (map_const T r f s) \<noteq> Inl (from_Result (runtime_error m))
   \<and> fst (map_rvalue T r f s) \<noteq> Inl (from_Result (BadUnwrap bx))
   \<and> fst (map_rvalue T r f s) \<noteq> Inl (from_Result (runtime_error m))
   \<and> fst (map_const_void T r g s) \<noteq> Inl (from_Result (BadUnwrap bx))
   \<and> fst (map_const_void T r g s) \<noteq> Inl (from_Result (runtime_error m))"
proof (cases r rule: Result_cases)
  case (success v)
  then show ?thesis
    by (simp add: map_on_Ok call_not_from_Result)
next
  case (error e)
  then show ?thesis
    by (simp add: map_on_Error)
next
  case valueless
  then show ?thesis
    by (simp add: map_const_def map_rvalue_def map_const_void_def propagate_def
        valueless_simps)
qed

theorem map_identity_on_error_witness:
  "has_error (Result_from_Error (Error ''e'') :: (int, string) Result)
   \<and> map_const \<lparr>ErrorDescription = None, moved_from = id\<rparr>
       (Result_from_Error (Error ''e'') :: (int, string) Result)
       (\<lambda>x w. (Inr (x + 1) :: unit + int, w)) (0, ()) =
     (Inr (Result_from_Error (Error ''e'')), (0, ()))
   \<and> map_rvalue \<lparr>ErrorDescription = None, moved_from = id\<rparr>
       (Result_from_Error (Error ''e'') :: (int, string) Result)
       (\<lambda>x w. (Inr (x + 1) :: unit + int, w)) (0, ()) =
     (Inr (Result_from_Error (Error ''e'')), (0, ()))"
  using map_identity_on_error
    [where r = "Result_from_Error (Error ''e'') :: (int, string) Result"
       and T = "\<lparr>ErrorDescription = None, moved_from = id\<rparr>"
       and f = "\<lambda>x w. (Inr (x + 1) :: unit + int, w)" and s = "(0, ())"]
  by (simp add: map_on_Error)

text \<open>
  C5 (map_error on the success branch). When \<open>r\<close> holds a success value, both overloads
  of \<open>map_error\<close> return normally a result in the success branch with the same payload,
  in the state they were called in: the transform was not invoked.
\<close>

theorem map_error_identity_on_success:
  fixes r :: "('a, 'e) Result" and f :: "('e, 'n, 'x, 'w) callable" and T' :: "'n ErrorType"
  assumes "has_value r"
  shows
  "(\<exists>v r'. fst (unwrap_const T r) = Inr v \<and> map_error_const T r f s = (Inr r', s)
       \<and> has_value r' \<and> fst (unwrap_const T' r') = Inr v)
   \<and> (\<exists>v r'. fst (unwrap_const T r) = Inr v \<and> map_error_rvalue T r f s = (Inr r', s)
       \<and> has_value r' \<and> fst (unwrap_const T' r') = Inr v)"
proof -
  from assms obtain v where "r = Result_from_Ok (Ok v)"
    by (rule has_valueE)
  then show ?thesis
    by (simp add: map_error_on_Ok)
qed

theorem map_error_identity_on_success_witness:
  "has_value (Result_from_Ok (Ok 42) :: (int, string) Result)
   \<and> map_error_const \<lparr>ErrorDescription = None, moved_from = id\<rparr>
       (Result_from_Ok (Ok 42) :: (int, string) Result)
       (\<lambda>e w. (Inr (''Mapped: '' @ e) :: unit + string, w)) (0, ()) =
     (Inr (Result_from_Ok (Ok 42)), (0, ()))"
  using map_error_identity_on_success
    [where r = "Result_from_Ok (Ok 42) :: (int, string) Result"
       and T = "\<lparr>ErrorDescription = None, moved_from = id\<rparr>"
       and T' = "\<lparr>ErrorDescription = None, moved_from = id\<rparr>"
       and f = "\<lambda>e w. (Inr (''Mapped: '' @ e) :: unit + string, w)" and s = "(0, ())"]
  by (simp add: map_error_on_Ok)

text \<open>
  C6 (wrong-branch failures). \<open>unwrap\<close> raises a \<open>BadUnwrapException\<close> exactly when the
  error branch is active, and the exception holds the error payload; the read-access
  overload leaves the object as it was, the consuming overload leaves a moved-from
  payload behind. \<open>error\<close> raises exactly when the success branch is active, and what it
  raises is the \<open>runtime_error\<close> with the fixed message, which has no payload. For an
  object in one of the two branches these are the only ways in which the accessors do
  not return. (An object that an assignment left without an alternative is in neither
  branch; there the accessors dereference a null pointer, which is no exception of the
  library.)
\<close>

theorem wrong_branch_failures:
  fixes r :: "('a, 'e) Result"
  shows
  "((\<exists>ex. fst (unwrap_const T r) = Inl (BadUnwrap ex)) \<longleftrightarrow> has_error r)
   \<and> ((\<exists>ex. fst (unwrap_rvalue T r) = Inl (BadUnwrap ex)) \<longleftrightarrow> has_error r)
   \<and> ((\<exists>m. fst (error_const r) = Inl (runtime_error m)) \<longleftrightarrow> has_value r)
   \<and> ((\<exists>m. fst (error_rvalue r) = Inl (runtime_error m)) \<longleftrightarrow> has_value r)
   \<and> (has_value r \<or> has_error r \<longrightarrow>
        (isl (fst (unwrap_const T r)) \<longleftrightarrow> has_error r)
      \<and> (isl (fst (unwrap_rvalue T r)) \<longleftrightarrow> has_error r)
      \<and> (isl (fst (error_const r)) \<longleftrightarrow> has_value r)
      \<and> (isl (fst (error_rvalue r)) \<longleftrightarrow> has_value r))
   \<and> (has_error r \<longrightarrow>
        (\<exists>e ex. fst (error_const r) = Inr e
           \<and> unwrap_const T r = (Inl (BadUnwrap ex), r)
           \<and> BadUnwrapException.m_error ex = e)
      \<and> (\<exists>e ex. fst (error_const r) = Inr e
           \<and> unwrap_rvalue T r = (Inl (BadUnwrap ex), Result_from_Error (Error (moved_from T e)))
           \<and> BadUnwrapException.m_error ex = e))
   \<and> (has_value r \<longrightarrow>
        fst (error_const r) = Inl (runtime_error ''Failed to access error of a successful Result'')
      \<and> fst (error_rvalue r) = Inl (runtime_error ''Failed to access error of a successful Result''))"
  by (cases r rule: Result_cases) (simp_all add: BadUnwrapException_init_def valueless_simps)

theorem wrong_branch_failures_witness:
  "has_error (Result_from_Error (Error ''bad'') :: (int, string) Result)
   \<and> has_value (Result_from_Ok (Ok 42) :: (int, string) Result)
   \<and> unwrap_rvalue \<lparr>ErrorDescription = None, moved_from = (\<lambda>e. [])\<rparr>
        (Result_from_Error (Error ''bad'') :: (int, string) Result) =
      (Inl (BadUnwrap \<lparr>BadUnwrapException.m_error = ''bad'',
              m_message = ''Failed to unwrap Result''\<rparr>),
       Result_from_Error (Error []))
   \<and> fst (error_const (Result_from_Ok (Ok 42) :: (int, string) Result)) =
      Inl (runtime_error ''Failed to access error of a successful Result'')
   \<and> isl (fst (unwrap_const \<lparr>ErrorDescription = None, moved_from = (\<lambda>e. [])\<rparr>
        (Result_from_Error (Error ''bad'') :: (int, string) Result)))
   \<and> \<not> isl (fst (unwrap_const \<lparr>ErrorDescription = None, moved_from = (\<lambda>e. [])\<rparr>
        (Result_from_Ok (Ok 42) :: (int, string) Result)))"
  using wrong_branch_failures
    [where r = "Result_from_Error (Error ''bad'') :: (int, string) Result"
       and T = "\<lparr>ErrorDescription = None, moved_from = (\<lambda>e. [])\<rparr>"]
    wrong_branch_failures
    [where r = "Result_from_Ok (Ok 42) :: (int, string) Result"
       and T = "\<lparr>ErrorDescription = None, moved_from = (\<lambda>e. [])\<rparr>"]
  by (simp add: BadUnwrapException_init_def construct_message_def)

text \<open>
  C7 (description hook). The exception raised by \<open>unwrap\<close> on an error (both classes, both
  overloads) stores the message \<open>''Failed to unwrap Result: ''\<close> followed by the
  description of the payload when the error type has the hook, and
  \<open>''Failed to unwrap Result''\<close> when it has not. \<open>what\<close> returns the stored message up to
  the first NUL character of the description, hence all of it when the description has
  none. Which of the two forms is used is fixed by the instantiation and is the same for
  every payload: the concept holds exactly when every message has the first form.
\<close>

theorem unwrap_failure_message:
  fixes r :: "('a, 'e) Result" and q :: "'e Result_void"
  shows
  "(has_error r \<longrightarrow>
        (\<exists>e ex. fst (error_const r) = Inr e
           \<and> fst (unwrap_const T r) = Inl (BadUnwrap ex)
           \<and> fst (unwrap_rvalue T r) = Inl (BadUnwrap ex)
           \<and> (\<forall>d. ErrorDescription T = Some d \<longrightarrow>
                 m_message ex = ''Failed to unwrap Result: '' @ d e
               \<and> what ex = ''Failed to unwrap Result: '' @ takeWhile (\<lambda>c. c \<noteq> CHR 0x00) (d e)
               \<and> (CHR 0x00 \<notin> set (d e) \<longrightarrow> what ex = ''Failed to unwrap Result: '' @ d e))
           \<and> (\<not> HasErrorDescription T \<longrightarrow>
                 m_message ex = ''Failed to unwrap Result''
               \<and> what ex = ''Failed to unwrap Result'')))
   \<and> (void_has_error q \<longrightarrow>
        (\<exists>e ex. fst (void_error_const q) = Inr e
           \<and> fst (void_unwrap_const T q) = Inl (BadUnwrap ex)
           \<and> fst (void_unwrap_rvalue T q) = Inl (BadUnwrap ex)
           \<and> (\<forall>d. ErrorDescription T = Some d \<longrightarrow>
                 m_message ex = ''Failed to unwrap Result: '' @ d e
               \<and> what ex = ''Failed to unwrap Result: '' @ takeWhile (\<lambda>c. c \<noteq> CHR 0x00) (d e)
               \<and> (CHR 0x00 \<notin> set (d e) \<longrightarrow> what ex = ''Failed to unwrap Result: '' @ d e))
           \<and> (\<not> HasErrorDescription T \<longrightarrow>
                 m_message ex = ''Failed to unwrap Result''
               \<and> what ex = ''Failed to unwrap Result'')))
   \<and> (HasErrorDescription T \<longleftrightarrow>
        (\<exists>d. \<forall>e. m_message (BadUnwrapException_init T e) = ''Failed to unwrap Result: '' @ d e))
   \<and> (\<not> HasErrorDescription T \<longleftrightarrow>
        (\<forall>e. m_message (BadUnwrapException_init T e) = ''Failed to unwrap Result''))"
proof -
  have msg: "(\<forall>d. ErrorDescription T = Some d \<longrightarrow>
                 m_message (BadUnwrapException_init T e) = ''Failed to unwrap Result: '' @ d e
               \<and> what (BadUnwrapException_init T e) =
                   ''Failed to unwrap Result: '' @ takeWhile (\<lambda>c. c \<noteq> CHR 0x00) (d e)
               \<and> (CHR 0x00 \<notin> set (d e) \<longrightarrow>
                   what (BadUnwrapException_init T e) = ''Failed to unwrap Result: '' @ d e))
      \<and> (\<not> HasErrorDescription T \<longrightarrow>
                 m_message (BadUnwrapException_init T e) = ''Failed to unwrap Result''
               \<and> what (BadUnwrapException_init T e) = ''Failed to unwrap Result'')" for e
    by (auto simp: what_def BadUnwrapException_init_def construct_message_def
        HasErrorDescription_def takeWhile_eq_all_conv)
  have a: "has_error r \<longrightarrow>
        (\<exists>e ex. fst (error_const r) = Inr e
           \<and> fst (unwrap_const T r) = Inl (BadUnwrap ex)
           \<and> fst (unwrap_rvalue T r) = Inl (BadUnwrap ex)
           \<and> (\<forall>d. ErrorDescription T = Some d \<longrightarrow>
                 m_message ex = ''Failed to unwrap Result: '' @ d e
               \<and> what ex = ''Failed to unwrap Result: '' @ takeWhile (\<lambda>c. c \<noteq> CHR 0x00) (d e)
               \<and> (CHR 0x00 \<notin> set (d e) \<longrightarrow> what ex = ''Failed to unwrap Result: '' @ d e))
           \<and> (\<not> HasErrorDescription T \<longrightarrow>
                 m_message ex = ''Failed to unwrap Result''
               \<and> what ex = ''Failed to unwrap Result''))"
  proof (cases r rule: Result_cases)
    case (success v)
    then show ?thesis by simp
  next
    case (error e)
    then have "fst (error_const r) = Inr e"
      and "fst (unwrap_const T r) = Inl (BadUnwrap (BadUnwrapException_init T e))"
      and "fst (unwrap_rvalue T r) = Inl (BadUnwrap (BadUnwrapException_init T e))"
      by simp_all
    with msg [of e] show ?thesis by blast
  next
    case valueless
    then show ?thesis by (simp add: valueless_simps)
  qed
  have b: "void_has_error q \<longrightarrow>
        (\<exists>e ex. fst (void_error_const q) = Inr e
           \<and> fst (void_unwrap_const T q) = Inl (BadUnwrap ex)
           \<and> fst (void_unwrap_rvalue T q) = Inl (BadUnwrap ex)
           \<and> (\<forall>d. ErrorDescription T = Some d \<longrightarrow>
                 m_message ex = ''Failed to unwrap Result: '' @ d e
               \<and> what ex = ''Failed to unwrap Result: '' @ takeWhile (\<lambda>c. c \<noteq> CHR 0x00) (d e)
               \<and> (CHR 0x00 \<notin> set (d e) \<longrightarrow> what ex = ''Failed to unwrap Result: '' @ d e))
           \<and> (\<not> HasErrorDescription T \<longrightarrow>
                 m_message ex = ''Failed to unwrap Result''
               \<and> what ex = ''Failed to unwrap Result''))"
  proof (cases q rule: Result_void_cases)
    case success
    then show ?thesis by simp
  next
    case (error e)
    then have "fst (void_error_const q) = Inr e"
      and "fst (void_unwrap_const T q) = Inl (BadUnwrap (BadUnwrapException_init T e))"
      and "fst (void_unwrap_rvalue T q) = Inl (BadUnwrap (BadUnwrapException_init T e))"
      by simp_all
    with msg [of e] show ?thesis by blast
  qed
  have c: "HasErrorDescription T \<longleftrightarrow>
        (\<exists>d. \<forall>e. m_message (BadUnwrapException_init T e) = ''Failed to unwrap Result: '' @ d e)"
    by (cases "ErrorDescription T")
      (auto simp: HasErrorDescription_def BadUnwrapException_init_def construct_message_def)
  have d: "\<not> HasErrorDescription T \<longleftrightarrow>
        (\<forall>e. m_message (BadUnwrapException_init T e) = ''Failed to unwrap Result'')"
    by (cases "ErrorDescription T")
      (auto simp: HasErrorDescription_def BadUnwrapException_init_def construct_message_def)
  from a b c d show ?thesis
    by (intro conjI)
qed

theorem unwrap_failure_message_witness:
  "has_error (Result_from_Error (Error ''bad'') :: (int, string) Result)
   \<and> void_has_error (Result_void_from_Error (Error ''bad'') :: string Result_void)
   \<and> CHR 0x00 \<notin> set ''bad''
   \<and> (\<exists>ex. fst (unwrap_const \<lparr>ErrorDescription = Some (\<lambda>e. e), moved_from = id\<rparr>
                (Result_from_Error (Error ''bad'') :: (int, string) Result)) = Inl (BadUnwrap ex)
          \<and> what ex = ''Failed to unwrap Result: bad'')
   \<and> (\<exists>ex. fst (unwrap_const \<lparr>ErrorDescription = None, moved_from = id\<rparr>
                (Result_from_Error (Error ''bad'') :: (int, string) Result)) = Inl (BadUnwrap ex)
          \<and> what ex = ''Failed to unwrap Result'')"
  using unwrap_failure_message
    [where r = "Result_from_Error (Error ''bad'') :: (int, string) Result"
       and q = "Result_void_from_Error (Error ''bad'') :: string Result_void"
       and T = "\<lparr>ErrorDescription = Some (\<lambda>e. e), moved_from = id\<rparr>"]
    unwrap_failure_message
    [where r = "Result_from_Error (Error ''bad'') :: (int, string) Result"
       and q = "Result_void_from_Error (Error ''bad'') :: string Result_void"
       and T = "\<lparr>ErrorDescription = None, moved_from = id\<rparr>"]
  by (simp add: HasErrorDescription_def)

text \<open>
  A description with a NUL character: \<open>what\<close> ends before it, so the rest of the
  description is not in what \<open>what\<close> returns.
\<close>

theorem what_ends_at_NUL:
  "fst (unwrap_const \<lparr>ErrorDescription = Some (\<lambda>e. e), moved_from = id\<rparr>
         (Result_from_Error (Error [CHR ''a'', CHR 0x00, CHR ''b'']) :: (int, string) Result)) =
     Inl (BadUnwrap
       \<lparr>BadUnwrapException.m_error = [CHR ''a'', CHR 0x00, CHR ''b''],
        m_message = ''Failed to unwrap Result: '' @ [CHR ''a'', CHR 0x00, CHR ''b'']\<rparr>)
   \<and> what
       \<lparr>BadUnwrapException.m_error = [CHR ''a'', CHR 0x00, CHR ''b''],
        m_message = ''Failed to unwrap Result: '' @ [CHR ''a'', CHR 0x00, CHR ''b'']\<rparr> =
     ''Failed to unwrap Result: a''
   \<and> what
       \<lparr>BadUnwrapException.m_error = [CHR ''a'', CHR 0x00, CHR ''b''],
        m_message = ''Failed to unwrap Result: '' @ [CHR ''a'', CHR 0x00, CHR ''b'']\<rparr> \<noteq>
     ''Failed to unwrap Result: '' @ [CHR ''a'', CHR 0x00, CHR ''b'']"
  by (simp add: what_def BadUnwrapException_init_def construct_message_def)

text \<open>
  C8 (the specialisation and the class template). The specialisation declares every
  public member of the class template but \<open>has_value\<close>; its boolean conversion, the
  negation of \<open>has_error\<close>, is \<open>has_value\<close> of the object it stands for. Read through
  \<open>as_generic\<close>, construction, \<open>has_error\<close>, both overloads of \<open>unwrap\<close> and \<open>error\<close>
  (outcome and object afterwards), both overloads of \<open>map\<close> for a callable that returns a
  value, the read-only \<open>map\<close> for a callable that returns \<^verbatim>\<open>void\<close>, and both overloads of
  \<open>map_error\<close> do what the class template does with the empty success type. So does an
  assignment, whenever the assignment of the class template completes. The consuming
  \<open>map\<close> of the specialisation for a callable that returns \<^verbatim>\<open>void\<close> does what the
  read-only one does.
\<close>

theorem void_specialisation_simulates:
  fixes q :: "'e Result_void"
    and f :: "(unit, 'b, 'x, 'w) callable" and g :: "(unit, unit, 'x, 'w) callable"
    and k :: "('e, 'n, 'x, 'w) callable"
    and M :: "(unit, 'p) payload_moves" and N :: "('e, 'p) payload_moves"
  shows
  "set void_public_members = set public_members - {M_has_value}
   \<and> as_generic (Result_void_from_Ok Ok_void :: 'e Result_void) = Result_from_Ok (Ok ())
   \<and> as_generic (Result_void_from_Error e) = Result_from_Error e
   \<and> (fst (assign_Ok M (as_generic q) (Ok ())) = None \<longrightarrow>
        as_generic (void_assign_Ok q Ok_void) = snd (assign_Ok M (as_generic q) (Ok ())))
   \<and> (fst (assign_Error N (as_generic q) e) = None \<longrightarrow>
        fst (void_assign_Error N q e) = None
      \<and> as_generic (snd (void_assign_Error N q e)) = snd (assign_Error N (as_generic q) e))
   \<and> void_has_error q = has_error (as_generic q)
   \<and> void_operator_bool q = has_value (as_generic q)
   \<and> void_operator_bool q \<noteq> void_has_error q
   \<and> map_prod id as_generic (void_unwrap_const T q) = unwrap_const T (as_generic q)
   \<and> map_prod id as_generic (void_unwrap_rvalue T q) = unwrap_rvalue T (as_generic q)
   \<and> map_prod id as_generic (void_error_const q) = error_const (as_generic q)
   \<and> map_prod id as_generic (void_error_rvalue q) = error_rvalue (as_generic q)
   \<and> void_map_const q f s = map_const T (as_generic q) f s
   \<and> void_map_rvalue q f s = map_rvalue T (as_generic q) f s
   \<and> void_map_const_void q g s = map_const_void T (as_generic q) g s
   \<and> void_map_rvalue_void q g s = map_const_void T (as_generic q) g s
   \<and> map_prod (map_sum id as_generic) id (void_map_error_const q k s) =
       map_error_const T (as_generic q) k s
   \<and> map_prod (map_sum id as_generic) id (void_map_error_rvalue q k s) =
       map_error_rvalue T (as_generic q) k s"
proof -
  have members: "set void_public_members = set public_members - {M_has_value}"
    by (auto simp: void_public_members_def public_members_def)
  have assignment: "(fst (assign_Ok M (as_generic q) (Ok ())) = None \<longrightarrow>
        as_generic (void_assign_Ok q Ok_void) = snd (assign_Ok M (as_generic q) (Ok ())))
      \<and> (fst (assign_Error N (as_generic q) e) = None \<longrightarrow>
        fst (void_assign_Error N q e) = None
      \<and> as_generic (snd (void_assign_Error N q e)) = snd (assign_Error N (as_generic q) e))"
    by (cases q rule: Result_void_cases)
      (simp_all add: assign_Ok_simps assign_Error_simps void_assign_simps
         split: option.splits prod.splits)
  have rest: "as_generic (Result_void_from_Ok Ok_void :: 'e Result_void) = Result_from_Ok (Ok ())
   \<and> as_generic (Result_void_from_Error e) = Result_from_Error e
   \<and> void_has_error q = has_error (as_generic q)
   \<and> void_operator_bool q = has_value (as_generic q)
   \<and> void_operator_bool q \<noteq> void_has_error q
   \<and> map_prod id as_generic (void_unwrap_const T q) = unwrap_const T (as_generic q)
   \<and> map_prod id as_generic (void_unwrap_rvalue T q) = unwrap_rvalue T (as_generic q)
   \<and> map_prod id as_generic (void_error_const q) = error_const (as_generic q)
   \<and> map_prod id as_generic (void_error_rvalue q) = error_rvalue (as_generic q)
   \<and> void_map_const q f s = map_const T (as_generic q) f s
   \<and> void_map_rvalue q f s = map_rvalue T (as_generic q) f s
   \<and> void_map_const_void q g s = map_const_void T (as_generic q) g s
   \<and> void_map_rvalue_void q g s = map_const_void T (as_generic q) g s
   \<and> map_prod (map_sum id as_generic) id (void_map_error_const q k s) =
       map_error_const T (as_generic q) k s
   \<and> map_prod (map_sum id as_generic) id (void_map_error_rvalue q k s) =
       map_error_rvalue T (as_generic q) k s"
    by (cases q rule: Result_void_cases)
      (simp_all add: void_operator_bool_def map_on_Ok map_on_Error void_map_on_Ok
         void_map_on_Error void_map_error_simps map_error_on_Ok map_error_on_Error map_sum_call)
  from members assignment rest show ?thesis
    by (elim conjE) (intro conjI; assumption)
qed

theorem void_specialisation_simulates_witness:
  "fst (assign_Error
        \<lparr>into_temporary = None :: unit option, move_assign = None, into_storage = None\<rparr>
        (as_generic (Result_void_from_Ok Ok_void :: string Result_void)) (Error ''e'')) = None
   \<and> fst (assign_Ok
        \<lparr>into_temporary = None :: unit option, move_assign = None, into_storage = None\<rparr>
        (as_generic (Result_void_from_Error (Error ''e'') :: string Result_void)) (Ok ())) = None
   \<and> as_generic (snd (void_assign_Error
        \<lparr>into_temporary = None :: unit option, move_assign = None, into_storage = None\<rparr>
        (Result_void_from_Ok Ok_void :: string Result_void) (Error ''e''))) =
     Result_from_Error (Error ''e'')
   \<and> as_generic (void_assign_Ok (Result_void_from_Error (Error ''e'') :: string Result_void)
        Ok_void) =
     Result_from_Ok (Ok ())"
  using void_specialisation_simulates
    [where q = "Result_void_from_Ok Ok_void :: string Result_void" and e = "Error ''e''"
       and N = "\<lparr>into_temporary = None :: unit option, move_assign = None, into_storage = None\<rparr>"]
    void_specialisation_simulates
    [where q = "Result_void_from_Error (Error ''e'') :: string Result_void"
       and M = "\<lparr>into_temporary = None :: unit option, move_assign = None, into_storage = None\<rparr>"]
  by (simp add: assign_Ok_simps assign_Error_simps void_assign_simps)

text \<open>
  Where the two classes part by design: the specialisation does not declare \<open>has_value\<close>,
  and an assignment of \<open>Error\<close> to a successful object whose move into the storage throws
  leaves the specialisation successful and the class template in neither branch.
\<close>

theorem void_specialisation_differs:
  "M_has_value \<in> set public_members \<and> M_has_value \<notin> set void_public_members
   \<and> set void_public_members \<noteq> set public_members
   \<and> void_operator_bool (snd (void_assign_Error
        \<lparr>into_temporary = None, move_assign = None, into_storage = Some ()\<rparr>
        (Result_void_from_Ok Ok_void :: string Result_void) (Error ''e'')))
   \<and> \<not> void_has_error (snd (void_assign_Error
        \<lparr>into_temporary = None, move_assign = None, into_storage = Some ()\<rparr>
        (Result_void_from_Ok Ok_void :: string Result_void) (Error ''e'')))
   \<and> \<not> has_value (snd (assign_Error
        \<lparr>into_temporary = None, move_assign = None, into_storage = Some ()\<rparr>
        (as_generic (Result_void_from_Ok Ok_void :: string Result_void)) (Error ''e'')))
   \<and> \<not> has_error (snd (assign_Error
        \<lparr>into_temporary = None, move_assign = None, into_storage = Some ()\<rparr>
        (as_generic (Result_void_from_Ok Ok_void :: string Result_void)) (Error ''e'')))"
proof -
  have "M_has_value \<in> set public_members \<and> M_has_value \<notin> set void_public_members
      \<and> set void_public_members \<noteq> set public_members"
    by (auto simp: void_public_members_def public_members_def)
  then show ?thesis
    by (simp add: assign_Error_simps void_assign_simps void_operator_bool_def)
qed

text \<open>
  The one other place where the two classes compute differently is the consuming \<open>map\<close>
  for a callable that returns \<^verbatim>\<open>void\<close>, where the class template makes its second call.
\<close>

lemma consuming_void_map_differs_from_generic:
  "void_map_rvalue_void (Result_void_from_Ok Ok_void :: string Result_void)
       (\<lambda>u w. (Inr () :: unit + unit, Suc w)) (0, 0 :: nat) \<noteq>
   map_rvalue_void \<lparr>ErrorDescription = None, moved_from = id\<rparr>
       (as_generic (Result_void_from_Ok Ok_void :: string Result_void))
       (\<lambda>u w. (Inr () :: unit + unit, Suc w)) (0, 0 :: nat)"
  by (simp add: map_on_Ok void_map_on_Ok call_def invoke_def)

text \<open>
  C9 (functor composition). For \<open>r\<close> in the success branch, \<open>r.map(f).map(g)\<close> and
  \<open>r.map(composed f g)\<close> have the same outcome (the same result, or the same exception
  of \<open>f\<close> or \<open>g\<close>) and leave the same caller's state, whichever overload the first call
  and the single call use and whether the second call is the consuming overload (the
  one a temporary selects) or the read-only one. When \<open>f\<close> and \<open>g\<close> return \<open>y\<close> and \<open>z\<close>,
  both are the success result holding \<open>z\<close>.
\<close>

theorem map_functor_composition:
  fixes r :: "('a, 'e) Result"
    and f :: "('a, 'b, 'x, 'w) callable" and g :: "('b, 'c, 'x, 'w) callable"
  assumes "has_value r"
  shows
  "fst (chained (map_const T r f s) (\<lambda>t. map_rvalue T t g)) = fst (map_const T r (composed f g) s)
   \<and> fst (chained (map_rvalue T r f s) (\<lambda>t. map_rvalue T t g)) =
       fst (map_rvalue T r (composed f g) s)
   \<and> fst (chained (map_const T r f s) (\<lambda>t. map_const T t g)) = fst (map_const T r (composed f g) s)
   \<and> snd (snd (chained (map_const T r f s) (\<lambda>t. map_rvalue T t g))) =
       snd (snd (map_const T r (composed f g) s))
   \<and> snd (snd (chained (map_rvalue T r f s) (\<lambda>t. map_rvalue T t g))) =
       snd (snd (map_rvalue T r (composed f g) s))
   \<and> (\<forall>v y z w1 w2.
         fst (unwrap_const T r) = Inr v \<and> f v (snd s) = (Inr y, w1) \<and> g y w1 = (Inr z, w2) \<longrightarrow>
           fst (chained (map_const T r f s) (\<lambda>t. map_rvalue T t g)) = Inr (Result_from_Ok (Ok z))
         \<and> fst (map_const T r (composed f g) s) = Inr (Result_from_Ok (Ok z)))"
proof -
  from assms obtain v where r: "r = Result_from_Ok (Ok v)"
    by (rule has_valueE)
  have cc: "map_prod id snd (chained (map_const T r f s) (\<lambda>t. map_rvalue T t g)) =
      map_prod id snd (map_const T r (composed f g) s)"
    and rr: "map_prod id snd (chained (map_rvalue T r f s) (\<lambda>t. map_rvalue T t g)) =
      map_prod id snd (map_rvalue T r (composed f g) s)"
    and cr: "map_prod id snd (chained (map_const T r f s) (\<lambda>t. map_const T t g)) =
      map_prod id snd (map_const T r (composed f g) s)"
    unfolding r by (simp_all add: map_on_Ok chained_call call_composed)
  note first = same_outcome_and_world(1) [OF cc]
    and second = same_outcome_and_world(1) [OF rr]
    and third = same_outcome_and_world(1) [OF cr]
    and fourth = same_outcome_and_world(2) [OF cc]
    and fifth = same_outcome_and_world(2) [OF rr]
  have payload: "fst (map_const T r (composed f g) s) = Inr (Result_from_Ok (Ok z))"
    if "fst (unwrap_const T r) = Inr u" and "f u (snd s) = (Inr y, w1)" and "g y w1 = (Inr z, w2)"
    for u y z w1 w2
  proof -
    from that(1) have "u = v" unfolding r by simp
    with that(2,3) show ?thesis
      unfolding r by (simp add: map_on_Ok call_def invoke_def composed_def)
  qed
  have sixth: "\<forall>v y z w1 w2.
         fst (unwrap_const T r) = Inr v \<and> f v (snd s) = (Inr y, w1) \<and> g y w1 = (Inr z, w2) \<longrightarrow>
           fst (chained (map_const T r f s) (\<lambda>t. map_rvalue T t g)) = Inr (Result_from_Ok (Ok z))
         \<and> fst (map_const T r (composed f g) s) = Inr (Result_from_Ok (Ok z))"
  proof (intro allI impI, elim conjE)
    fix u y z w1 w2
    assume "fst (unwrap_const T r) = Inr u" "f u (snd s) = (Inr y, w1)" "g y w1 = (Inr z, w2)"
    then have "fst (map_const T r (composed f g) s) = Inr (Result_from_Ok (Ok z))"
      by (rule payload)
    with first
    show "fst (chained (map_const T r f s) (\<lambda>t. map_rvalue T t g)) = Inr (Result_from_Ok (Ok z))
         \<and> fst (map_const T r (composed f g) s) = Inr (Result_from_Ok (Ok z))"
      by simp
  qed
  from first second third fourth fifth sixth show ?thesis
    by (intro conjI)
qed

theorem map_functor_composition_witness:
  "has_value (Result_from_Ok (Ok 42) :: (int, string) Result)
   \<and> fst (chained
        (map_const \<lparr>ErrorDescription = None, moved_from = id\<rparr>
           (Result_from_Ok (Ok 42) :: (int, string) Result)
           (\<lambda>x w. (Inr (x * 2) :: unit + int, w)) (0, ()))
        (\<lambda>t. map_rvalue \<lparr>ErrorDescription = None, moved_from = id\<rparr> t
           (\<lambda>x w. (Inr (x - 10) :: unit + int, w)))) =
      Inr (Result_from_Ok (Ok 74))
   \<and> fst (map_const \<lparr>ErrorDescription = None, moved_from = id\<rparr>
           (Result_from_Ok (Ok 42) :: (int, string) Result)
           (composed (\<lambda>x w. (Inr (x * 2) :: unit + int, w)) (\<lambda>x w. (Inr (x - 10) :: unit + int, w)))
           (0, ())) =
      Inr (Result_from_Ok (Ok 74))"
proof -
  have h: "has_value (Result_from_Ok (Ok 42) :: (int, string) Result)"
    by simp
  have single: "fst (map_const \<lparr>ErrorDescription = None, moved_from = id\<rparr>
           (Result_from_Ok (Ok 42) :: (int, string) Result)
           (composed (\<lambda>x w. (Inr (x * 2) :: unit + int, w)) (\<lambda>x w. (Inr (x - 10) :: unit + int, w)))
           (0, ())) =
      Inr (Result_from_Ok (Ok 74))"
    by (simp add: map_on_Ok call_def invoke_def composed_def)
  note law = map_functor_composition [OF h,
      where T = "\<lparr>ErrorDescription = None, moved_from = id\<rparr>"
        and f = "\<lambda>x w. (Inr (x * 2) :: unit + int, w)"
        and g = "\<lambda>x w. (Inr (x - 10) :: unit + int, w)" and s = "(0, ())", THEN conjunct1]
  from h single law show ?thesis
    by (simp only: simp_thms)
qed

text \<open>
  C10 (read access changes nothing). After \<open>unwrap() const&\<close> and \<open>error() const&\<close> the
  object is the one they were called on, for both classes. In particular, after
  \<open>unwrap\<close> has raised on an error the object still answers \<open>has_error\<close> and \<open>error\<close> with
  the payload the exception holds, and after \<open>error\<close> has raised on a success the object
  still answers \<open>unwrap\<close> with its value.
\<close>

theorem read_access_leaves_unchanged:
  fixes r :: "('a, 'e) Result" and q :: "'e Result_void"
  shows
  "snd (unwrap_const T r) = r \<and> snd (error_const r) = r
   \<and> snd (void_unwrap_const T q) = q \<and> snd (void_error_const q) = q
   \<and> (has_error r \<longrightarrow>
        (\<exists>e ex. unwrap_const T r = (Inl (BadUnwrap ex), r)
           \<and> BadUnwrapException.m_error ex = e
           \<and> has_error (snd (unwrap_const T r))
           \<and> fst (error_const (snd (unwrap_const T r))) = Inr e
           \<and> fst (error_const r) = Inr e))
   \<and> (has_value r \<longrightarrow>
        (\<exists>v m. error_const r = (Inl (runtime_error m), r)
           \<and> has_value (snd (error_const r))
           \<and> fst (unwrap_const T (snd (error_const r))) = Inr v
           \<and> fst (unwrap_const T r) = Inr v))"
proof -
  have a: "snd (void_unwrap_const T q) = q \<and> snd (void_error_const q) = q"
    by (cases q rule: Result_void_cases) simp_all
  have b: "snd (unwrap_const T r) = r \<and> snd (error_const r) = r
   \<and> (has_error r \<longrightarrow>
        (\<exists>e ex. unwrap_const T r = (Inl (BadUnwrap ex), r)
           \<and> BadUnwrapException.m_error ex = e
           \<and> has_error (snd (unwrap_const T r))
           \<and> fst (error_const (snd (unwrap_const T r))) = Inr e
           \<and> fst (error_const r) = Inr e))
   \<and> (has_value r \<longrightarrow>
        (\<exists>v m. error_const r = (Inl (runtime_error m), r)
           \<and> has_value (snd (error_const r))
           \<and> fst (unwrap_const T (snd (error_const r))) = Inr v
           \<and> fst (unwrap_const T r) = Inr v))"
    by (cases r rule: Result_cases) (simp_all add: BadUnwrapException_init_def valueless_simps)
  from a b show ?thesis by blast
qed

theorem read_access_leaves_unchanged_witness:
  "has_error (Result_from_Error (Error ''bad'') :: (int, string) Result)
   \<and> has_value (Result_from_Ok (Ok 42) :: (int, string) Result)
   \<and> snd (unwrap_const \<lparr>ErrorDescription = None, moved_from = (\<lambda>e. [])\<rparr>
        (Result_from_Error (Error ''bad'') :: (int, string) Result)) =
      Result_from_Error (Error ''bad'')
   \<and> snd (error_const (Result_from_Ok (Ok 42) :: (int, string) Result)) =
      Result_from_Ok (Ok 42)"
  using read_access_leaves_unchanged
    [where r = "Result_from_Error (Error ''bad'') :: (int, string) Result"
       and T = "\<lparr>ErrorDescription = None, moved_from = (\<lambda>e. [])\<rparr>"]
    read_access_leaves_unchanged
    [where r = "Result_from_Ok (Ok 42) :: (int, string) Result"
       and T = "\<lparr>ErrorDescription = None, moved_from = (\<lambda>e. [])\<rparr>"]
  by simp

end
